theory Spec2Isabelle
  imports
    Main
    "HOL-Library.AList"
    "HOL-Library.Char_ord"
    "HOL-Library.List_Lexorder"
    "HOL-Library.Multiset"
    "HOL-Library.Word"
begin

section \<open>Go values used by the proxy\<close>

text \<open>
  A Go \<^verbatim>\<open>string\<close> is a byte sequence: \<^typ>\<open>string\<close>. A Go \<^verbatim>\<open>error\<close> is a value; \<^verbatim>\<open>nil\<close> is
  \<^term>\<open>None\<close>. The only error this repository creates itself is
  \<^verbatim>\<open>errors.New("Status not OK")\<close>; every other error comes out of a library call and is
  handed on unchanged. The constructors record where an error was made.
\<close>

datatype error =
    ErrorsNew string
  | RequestError string
  | TransportError string
  | ReadError string
  | DecodeError string
  | EncodeError string

text \<open>
  A Go \<^verbatim>\<open>map[string]T\<close> whose element type has the zero value \<^term>\<open>[]\<close> (\<^verbatim>\<open>string\<close>,
  \<^verbatim>\<open>[]string\<close>) is a list of entries with pairwise different keys. The order of the list is
  the order in which \<^verbatim>\<open>range\<close> visits the entries, which Go leaves unspecified.
  \<^verbatim>\<open>m[k]\<close> on a missing key is the zero value; \<^verbatim>\<open>m[k] = v\<close> overwrites or adds.
\<close>

type_synonym 'a gomap = "(string \<times> 'a list) list"

definition index :: "'a gomap \<Rightarrow> string \<Rightarrow> 'a list" where
  "index m k = (case map_of m k of None \<Rightarrow> [] | Some v \<Rightarrow> v)"

definition assign :: "'a gomap \<Rightarrow> string \<Rightarrow> 'a list \<Rightarrow> 'a gomap" where
  "assign m k v = AList.update k v m"

definition wellformed :: "'a gomap \<Rightarrow> bool" where
  "wellformed m = distinct (map fst m)"

section \<open>The library calls the client makes: net/url and net/http\<close>

text \<open>
  The client hands two literals to \<^verbatim>\<open>http.NewRequest\<close> and then works on the query of the
  parsed URL with \<^verbatim>\<open>URL.Query\<close>, \<^verbatim>\<open>Values.Add\<close> and \<^verbatim>\<open>Values.Encode\<close>. These are pure
  functions of the Go standard library; they are written out here as far as the client
  depends on them. \<^verbatim>\<open>url.Parse\<close> follows the library for URLs of the shape
  \<^verbatim>\<open>scheme://host/path?query\<close>: control characters and a colon with no scheme before it are
  rejected, the scheme is cut off, the query is cut at the first question mark, the authority
  is cut at the next slash. Fragments, user information, ports and percent-escapes in the path
  are not interpreted; the three endpoint literals have none.
\<close>

definition byte :: "char \<Rightarrow> nat" where
  "byte c = of_char c"

definition isLetter :: "char \<Rightarrow> bool" where
  "isLetter c = ((97 \<le> byte c \<and> byte c \<le> 122) \<or> (65 \<le> byte c \<and> byte c \<le> 90))"

definition isDigit :: "char \<Rightarrow> bool" where
  "isDigit c = (48 \<le> byte c \<and> byte c \<le> 57)"

definition toLower :: "char \<Rightarrow> char" where
  "toLower c = (if 65 \<le> byte c \<and> byte c \<le> 90 then char_of (byte c + 32) else c)"

definition stringContainsCTLByte :: "string \<Rightarrow> bool" where
  "stringContainsCTLByte s = list_ex (\<lambda>c. byte c < 32 \<or> byte c = 127) s"

text \<open>\<^verbatim>\<open>strings.Cut(s, sep)\<close> for a one-byte separator: before, after, found.\<close>

definition cut :: "char \<Rightarrow> string \<Rightarrow> string \<times> string \<times> bool" where
  "cut sep s = (takeWhile (\<lambda>c. c \<noteq> sep) s, drop 1 (dropWhile (\<lambda>c. c \<noteq> sep) s), sep \<in> set s)"

record URL =
  Scheme :: string
  Opaque :: string
  Host :: string
  Path :: string
  RawQuery :: string

fun scanScheme :: "string \<Rightarrow> string \<Rightarrow> string \<Rightarrow> error + (string \<times> string)" where
  "scanScheme rawURL seen [] = Inr ('''', rawURL)"
| "scanScheme rawURL seen (c # cs) =
    (if isLetter c then scanScheme rawURL (seen @ [c]) cs
     else if isDigit c \<or> c = CHR ''+'' \<or> c = CHR ''-'' \<or> c = CHR ''.'' then
       (if seen = [] then Inr ('''', rawURL) else scanScheme rawURL (seen @ [c]) cs)
     else if c = CHR '':'' then
       (if seen = [] then Inl (RequestError ''missing protocol scheme'') else Inr (seen, cs))
     else Inr ('''', rawURL))"

definition getScheme :: "string \<Rightarrow> error + (string \<times> string)" where
  "getScheme rawURL = scanScheme rawURL [] rawURL"

definition Parse :: "string \<Rightarrow> error + URL" where
  "Parse rawURL =
    (if stringContainsCTLByte rawURL then
       Inl (RequestError ''net/url: invalid control character in URL'')
     else case getScheme rawURL of
       Inl err \<Rightarrow> Inl err
     | Inr (scheme, rest) \<Rightarrow>
        (let scheme = map toLower scheme;
             (rest, rawQuery, _) = cut (CHR ''?'') rest
         in if take 1 rest \<noteq> ''/'' \<and> scheme \<noteq> '''' then
              Inr \<lparr>Scheme = scheme, Opaque = rest, Host = '''', Path = '''', RawQuery = rawQuery\<rparr>
            else if take 1 rest \<noteq> ''/'' \<and> CHR '':'' \<in> set (fst (cut (CHR ''/'') rest)) then
              Inl (RequestError ''first path segment in URL cannot contain colon'')
            else if take 2 rest = ''//'' \<and> (scheme \<noteq> '''' \<or> take 3 rest \<noteq> ''///'') then
              (let authority = takeWhile (\<lambda>c. c \<noteq> CHR ''/'') (drop 2 rest);
                   rest = dropWhile (\<lambda>c. c \<noteq> CHR ''/'') (drop 2 rest)
               in Inr \<lparr>Scheme = scheme, Opaque = '''', Host = authority, Path = rest,
                       RawQuery = rawQuery\<rparr>)
            else
              Inr \<lparr>Scheme = scheme, Opaque = '''', Host = '''', Path = rest, RawQuery = rawQuery\<rparr>))"

text \<open>
  \<^verbatim>\<open>http.NewRequest(method, url, nil)\<close>: an empty method means GET, the method must be an HTTP
  token, the URL must parse. Of the request only the method and the URL matter to the client.
\<close>

record Request =
  Method :: string
  URL :: URL

definition isToken :: "char \<Rightarrow> bool" where
  "isToken c = (isLetter c \<or> isDigit c \<or> c \<in> set ''!#$%&*+-.^_`|~'' \<or> byte c = 39)"

definition validMethod :: "string \<Rightarrow> bool" where
  "validMethod method = (method \<noteq> [] \<and> list_all isToken method)"

definition NewRequest :: "string \<Rightarrow> string \<Rightarrow> error + Request" where
  "NewRequest method url =
    (let method = (if method = '''' then ''GET'' else method)
     in if \<not> validMethod method then Inl (RequestError ''net/http: invalid method'')
        else case Parse url of
          Inl err \<Rightarrow> Inl err
        | Inr u \<Rightarrow> Inr \<lparr>Method = method, URL = u\<rparr>)"

text \<open>
  \<^verbatim>\<open>url.Values\<close> is \<^verbatim>\<open>map[string][]string\<close>. \<^verbatim>\<open>QueryEscape\<close> keeps letters, digits and
  \<^verbatim>\<open>-_.~\<close>, writes a space as \<^verbatim>\<open>+\<close> and every other byte as \<^verbatim>\<open>%XX\<close>; \<^verbatim>\<open>QueryUnescape\<close>
  undoes it and fails on a percent sign that two hexadecimal digits do not follow.
\<close>

type_synonym Values = "string gomap"

definition upperhex :: "nat \<Rightarrow> char" where
  "upperhex n = ''0123456789ABCDEF'' ! n"

definition shouldEscape :: "char \<Rightarrow> bool" where
  "shouldEscape c = (\<not> (isLetter c \<or> isDigit c \<or> c = CHR ''-'' \<or> c = CHR ''_'' \<or> c = CHR ''.''
                       \<or> c = CHR ''~''))"

definition escapeByte :: "char \<Rightarrow> string" where
  "escapeByte c =
    (if c = CHR '' '' then ''+''
     else if shouldEscape c then [CHR ''%'', upperhex (byte c div 16), upperhex (byte c mod 16)]
     else [c])"

definition QueryEscape :: "string \<Rightarrow> string" where
  "QueryEscape s = concat (map escapeByte s)"

definition ishex :: "char \<Rightarrow> bool" where
  "ishex c = (isDigit c \<or> (97 \<le> byte c \<and> byte c \<le> 102) \<or> (65 \<le> byte c \<and> byte c \<le> 70))"

definition unhex :: "char \<Rightarrow> nat" where
  "unhex c =
    (if isDigit c then byte c - 48
     else if 97 \<le> byte c \<and> byte c \<le> 102 then byte c - 97 + 10
     else if 65 \<le> byte c \<and> byte c \<le> 70 then byte c - 65 + 10
     else 0)"

fun QueryUnescape :: "string \<Rightarrow> error + string" where
  "QueryUnescape [] = Inr []"
| "QueryUnescape (c # cs) =
    (if c = CHR ''%'' then
       (case cs of
          h1 # h2 # rest \<Rightarrow>
            if ishex h1 \<and> ishex h2 then
              (case QueryUnescape rest of
                 Inl err \<Rightarrow> Inl err
               | Inr t \<Rightarrow> Inr (char_of (unhex h1 * 16 + unhex h2) # t))
            else Inl (RequestError ''invalid URL escape'')
        | _ \<Rightarrow> Inl (RequestError ''invalid URL escape''))
     else
       (case QueryUnescape cs of
          Inl err \<Rightarrow> Inl err
        | Inr t \<Rightarrow> Inr ((if c = CHR ''+'' then CHR '' '' else c) # t)))"

definition Add :: "Values \<Rightarrow> string \<Rightarrow> string \<Rightarrow> Values" where
  "Add v key val = assign v key (index v key @ [val])"

text \<open>
  \<^verbatim>\<open>parseQuery\<close> takes the pairs between ampersands one at a time; a pair with a semicolon or
  with a bad escape is skipped (\<^verbatim>\<open>URL.Query\<close> drops the error that reports it).
\<close>

function parseQuery :: "Values \<Rightarrow> string \<Rightarrow> Values" where
  "parseQuery m query =
    (if query = '''' then m
     else
       (let (key, query', _) = cut (CHR ''&'') query
        in if CHR '';'' \<in> set key then parseQuery m query'
           else if key = '''' then parseQuery m query'
           else
             (let (key, val, _) = cut (CHR ''='') key
              in case QueryUnescape key of
                   Inl _ \<Rightarrow> parseQuery m query'
                 | Inr key1 \<Rightarrow>
                    (case QueryUnescape val of
                       Inl _ \<Rightarrow> parseQuery m query'
                     | Inr value1 \<Rightarrow> parseQuery (Add m key1 value1) query'))))"
  by pat_completeness auto
termination
proof -
  have shorter: "length (dropWhile P q) - Suc 0 < length q"
    if "q \<noteq> []" for q :: string and P
    using that length_dropWhile_le [of P q] by (cases q) auto
  show ?thesis
    by (relation "measure (\<lambda>(m, query). length query)") (auto simp: cut_def shorter)
qed

definition Query :: "URL \<Rightarrow> Values" where
  "Query u = parseQuery [] (RawQuery u)"

text \<open>\<^verbatim>\<open>Values.Encode\<close>: keys in sorted order, each value of a key as \<^verbatim>\<open>key=value\<close>, joined by \<^verbatim>\<open>&\<close>.\<close>

definition writePair :: "string \<Rightarrow> string \<Rightarrow> string \<Rightarrow> string" where
  "writePair keyEscaped buf val =
    (if buf \<noteq> '''' then buf @ ''&'' else buf) @ keyEscaped @ ''='' @ QueryEscape val"

definition Encode :: "Values \<Rightarrow> string" where
  "Encode v =
    (if v = [] then ''''
     else foldl (\<lambda>buf k. foldl (writePair (QueryEscape k)) buf (index v k)) '''' (sort (map fst v)))"

section \<open>The result schemas (package geomap, lines 11-93)\<close>

text \<open>
  Each struct is a record with the fields of the source, in the order of the source; the JSON
  tag of a field is given beside it where it differs from the lower-cased name. A \<^verbatim>\<open>float64\<close>
  is kept as its 64-bit pattern (the program does no arithmetic on it), an \<^verbatim>\<open>int\<close> as an
  integer, a slice as \<^verbatim>\<open>nil\<close> (\<^term>\<open>None\<close>) or a list of elements, and an
  \<^verbatim>\<open>interface{}\<close> as the dynamic values that the JSON decoder stores in one: nil, a bool,
  a float64, a string, a \<^verbatim>\<open>[]interface{}\<close> or a \<^verbatim>\<open>map[string]interface{}\<close>. The map is the
  list of its entries in the order of their keys, each key once.
\<close>

type_synonym float64 = "64 word"

type_synonym 'a slice = "'a list option"

datatype JSONValue =
    JNull
  | JBool bool
  | JNumber float64
  | JString string
  | JArray "JSONValue list"
  | JObject "(string \<times> JSONValue) list"

record GoogleLocation =
  Lat :: float64
  Lng :: float64

record GoogleViewport =
  Northeast :: GoogleLocation
  SouthWest :: GoogleLocation

record GoogleGeometry =
  Location :: GoogleLocation
  LocationType :: string \<comment> \<open>\<^verbatim>\<open>location_type,omitempty\<close>\<close>
  Viewport :: GoogleViewport

record GooglePlusCode =
  CompoundCode :: string \<comment> \<open>\<^verbatim>\<open>compound_code\<close>\<close>
  GlobalCode :: string \<comment> \<open>\<^verbatim>\<open>global_code\<close>\<close>

record AddressComponent =
  LongName :: string \<comment> \<open>\<^verbatim>\<open>long_name\<close>\<close>
  ShortName :: string \<comment> \<open>\<^verbatim>\<open>short_name\<close>\<close>
  Types :: "string slice"

record Photo =
  Height :: int
  HTMLAttributions :: "string slice" \<comment> \<open>\<^verbatim>\<open>html_attributions\<close>\<close>
  PhotoReference :: string \<comment> \<open>\<^verbatim>\<open>photo_reference\<close>\<close>
  Width :: int

record OpeningHour =
  OpenNow :: bool \<comment> \<open>\<^verbatim>\<open>open_now\<close>\<close>

record Candidate =
  FormattedAddress :: string \<comment> \<open>\<^verbatim>\<open>formatted_address\<close>\<close>
  Name :: string
  Photos :: "Photo slice"
  Rating :: int

text \<open>The element type of \<^verbatim>\<open>GoogleGeocodeResponse.Results\<close>, anonymous in the source.\<close>

record GeocodeResult =
  AddressComponents :: "AddressComponent slice" \<comment> \<open>\<^verbatim>\<open>address_components\<close>\<close>
  FormattedAddress :: string \<comment> \<open>\<^verbatim>\<open>formatted_address\<close>\<close>
  Geometry :: GoogleGeometry
  PlaceID :: string \<comment> \<open>\<^verbatim>\<open>place_id\<close>\<close>
  PlusCode :: GooglePlusCode \<comment> \<open>\<^verbatim>\<open>plus_code\<close>\<close>
  Types :: "string slice"

record GoogleGeocodeResponse =
  Results :: "GeocodeResult slice"
  Status :: string

record GooglePlaceSearchResponse =
  Candidates :: "Candidate slice"
  Status :: string

text \<open>The element type of \<^verbatim>\<open>GoogleNearbySearchResponse.Results\<close>, anonymous in the source.\<close>

record NearbyResult =
  Geometry :: GoogleGeometry
  Icon :: string
  ID :: string
  Name :: string
  OpeningHours :: OpeningHour \<comment> \<open>\<^verbatim>\<open>opening_hours\<close>\<close>
  Photos :: "Photo slice"
  PlaceID :: string \<comment> \<open>\<^verbatim>\<open>place_id\<close>\<close>
  PlusCode :: GooglePlusCode \<comment> \<open>\<^verbatim>\<open>plus_code\<close>\<close>
  PriceLevel :: int \<comment> \<open>\<^verbatim>\<open>price_level,omitempty\<close>\<close>
  Rating :: float64
  Reference :: string
  Scope :: string
  Types :: "string slice"
  UserRatingsTotal :: int \<comment> \<open>\<^verbatim>\<open>user_ratings_total\<close>\<close>
  Vicinity :: string

record GoogleNearbySearchResponse =
  HTMLAttributions :: "JSONValue slice" \<comment> \<open>\<^verbatim>\<open>html_attributions\<close>\<close>
  Results :: "NearbyResult slice"
  Status :: string

text \<open>What \<^verbatim>\<open>var x T\<close> declares: every field at its zero value.\<close>

definition zeroGeocode :: GoogleGeocodeResponse where
  "zeroGeocode = \<lparr>GoogleGeocodeResponse.Results = None, GoogleGeocodeResponse.Status = ''''\<rparr>"

definition zeroPlaceSearch :: GooglePlaceSearchResponse where
  "zeroPlaceSearch = \<lparr>Candidates = None, GooglePlaceSearchResponse.Status = ''''\<rparr>"

definition zeroNearbySearch :: GoogleNearbySearchResponse where
  "zeroNearbySearch = \<lparr>HTMLAttributions = None, Results = None, Status = ''''\<rparr>"

section \<open>What the program does not decide: the network and the JSON codec\<close>

text \<open>
  An upstream response is its status code and its body; the body is a stream, given here by
  what reading it to the end yields: the bytes, and the error that stopped the reading if one
  did. \<^verbatim>\<open>ioutil.ReadAll\<close> returns just that.
\<close>

type_synonym ReadCloser = "string \<times> error option"

record Response =
  resp_StatusCode :: int
  resp_Body :: ReadCloser

definition ReadAll :: "ReadCloser \<Rightarrow> string \<times> error option" where
  "ReadAll r = r"

text \<open>
  \<^verbatim>\<open>Do\<close> is \<^verbatim>\<open>client.Do\<close> on the shared transport: a response or a transport error.
  \<^verbatim>\<open>json.Unmarshal(contents, &x)\<close> takes the bytes and the current value of \<^verbatim>\<open>x\<close> and gives the
  value of \<^verbatim>\<open>x\<close> afterwards with the error; there is one decoder for each destination type.
  \<^verbatim>\<open>json.Marshal(x)\<close> gives the bytes with the error.
\<close>

record env =
  Do :: "Request \<Rightarrow> error + Response"
  UnmarshalGeocode :: "string \<Rightarrow> GoogleGeocodeResponse \<Rightarrow> GoogleGeocodeResponse \<times> error option"
  UnmarshalPlaceSearch ::
    "string \<Rightarrow> GooglePlaceSearchResponse \<Rightarrow> GooglePlaceSearchResponse \<times> error option"
  UnmarshalNearbySearch ::
    "string \<Rightarrow> GoogleNearbySearchResponse \<Rightarrow> GoogleNearbySearchResponse \<times> error option"
  Marshal :: "GoogleNearbySearchResponse \<Rightarrow> string \<times> error option"

text \<open>
  What a call does to the outside, in the order in which it does it: a request sent with
  \<^verbatim>\<open>client.Do\<close>, the body read with \<^verbatim>\<open>ioutil.ReadAll\<close>, the body closed with
  \<^verbatim>\<open>resp.Body.Close\<close>.
\<close>

datatype event = EvDo Request | EvReadAll | EvClose

section \<open>The outbound query client (package geomap, lines 110-242)\<close>

text \<open>
  Each function returns its two results and the events it caused. The parameter \<^verbatim>\<open>ctx\<close> is
  not used by the source and is left out. \<^verbatim>\<open>defer resp.Body.Close()\<close> runs when the function
  returns, so its event follows the events of the statements after it.
\<close>

definition GetGeocode ::
  "env \<Rightarrow> char gomap \<Rightarrow> (GoogleGeocodeResponse \<times> error option) \<times> event list" where
  "GetGeocode env params =
    (let googleGeocodeResponse = zeroGeocode;
         reqURL = ''https://maps.googleapis.com/maps/api/geocode/json''
     in case NewRequest ''GET'' reqURL of
          Inl err \<Rightarrow> ((googleGeocodeResponse, Some err), [])
        | Inr req \<Rightarrow>
           (let q = Query (URL req);
                q = foldl (\<lambda>q (key, val). Add q key val) q params;
                req = req\<lparr>URL := (URL req)\<lparr>RawQuery := Encode q\<rparr>\<rparr>
            in case Do env req of
                 Inl err \<Rightarrow> ((googleGeocodeResponse, Some err), [EvDo req])
               | Inr resp \<Rightarrow>
                  if resp_StatusCode resp \<noteq> 200 then
                    ((googleGeocodeResponse, Some (ErrorsNew ''Status not OK'')), [EvDo req])
                  else
                    (let (result, events) =
                       (case ReadAll (resp_Body resp) of
                          (contents, Some err) \<Rightarrow> ((googleGeocodeResponse, Some err), [EvReadAll])
                        | (contents, None) \<Rightarrow>
                           (case UnmarshalGeocode env contents googleGeocodeResponse of
                              (googleGeocodeResponse, Some err) \<Rightarrow>
                                ((googleGeocodeResponse, Some err), [EvReadAll])
                            | (googleGeocodeResponse, None) \<Rightarrow>
                                ((googleGeocodeResponse, None), [EvReadAll])))
                     in (result, [EvDo req] @ events @ [EvClose]))))"

definition FindPlace ::
  "env \<Rightarrow> char gomap \<Rightarrow> (GooglePlaceSearchResponse \<times> error option) \<times> event list" where
  "FindPlace env params =
    (let googleFindPlaceResponse = zeroPlaceSearch;
         reqURL = ''https://maps.googleapis.com/maps/api/place/findplacefromtext/json''
     in case NewRequest ''GET'' reqURL of
          Inl err \<Rightarrow> ((googleFindPlaceResponse, Some err), [])
        | Inr req \<Rightarrow>
           (let q = Query (URL req);
                q = foldl (\<lambda>q (key, val). Add q key val) q params;
                req = req\<lparr>URL := (URL req)\<lparr>RawQuery := Encode q\<rparr>\<rparr>
            in case Do env req of
                 Inl err \<Rightarrow> ((googleFindPlaceResponse, Some err), [EvDo req])
               | Inr resp \<Rightarrow>
                  if resp_StatusCode resp \<noteq> 200 then
                    ((googleFindPlaceResponse, Some (ErrorsNew ''Status not OK'')), [EvDo req])
                  else
                    (let (result, events) =
                       (case ReadAll (resp_Body resp) of
                          (contents, Some err) \<Rightarrow> ((googleFindPlaceResponse, Some err), [EvReadAll])
                        | (contents, None) \<Rightarrow>
                           (case UnmarshalPlaceSearch env contents googleFindPlaceResponse of
                              (googleFindPlaceResponse, Some err) \<Rightarrow>
                                ((googleFindPlaceResponse, Some err), [EvReadAll])
                            | (googleFindPlaceResponse, None) \<Rightarrow>
                                ((googleFindPlaceResponse, None), [EvReadAll])))
                     in (result, [EvDo req] @ events @ [EvClose]))))"

definition PlaceNearby ::
  "env \<Rightarrow> char gomap \<Rightarrow> (GoogleNearbySearchResponse \<times> error option) \<times> event list" where
  "PlaceNearby env params =
    (let googleNearbySearchResponse = zeroNearbySearch;
         reqURL = ''https://maps.googleapis.com/maps/api/place/nearbysearch/json''
     in case NewRequest ''GET'' reqURL of
          Inl err \<Rightarrow> ((googleNearbySearchResponse, Some err), [])
        | Inr req \<Rightarrow>
           (let q = Query (URL req);
                q = foldl (\<lambda>q (key, val). Add q key val) q params;
                req = req\<lparr>URL := (URL req)\<lparr>RawQuery := Encode q\<rparr>\<rparr>
            in case Do env req of
                 Inl err \<Rightarrow> ((googleNearbySearchResponse, Some err), [EvDo req])
               | Inr resp \<Rightarrow>
                  if resp_StatusCode resp \<noteq> 200 then
                    ((googleNearbySearchResponse, Some (ErrorsNew ''Status not OK'')), [EvDo req])
                  else
                    (let (result, events) =
                       (case ReadAll (resp_Body resp) of
                          (contents, Some err) \<Rightarrow>
                            ((googleNearbySearchResponse, Some err), [EvReadAll])
                        | (contents, None) \<Rightarrow>
                           (case UnmarshalNearbySearch env contents googleNearbySearchResponse of
                              (googleNearbySearchResponse, Some err) \<Rightarrow>
                                ((googleNearbySearchResponse, Some err), [EvReadAll])
                            | (googleNearbySearchResponse, None) \<Rightarrow>
                                ((googleNearbySearchResponse, None), [EvReadAll])))
                     in (result, [EvDo req] @ events @ [EvClose]))))"

section \<open>The inbound adapter: parameters (getnearbylocation/main.go, lines 25-41)\<close>

text \<open>Of \<^verbatim>\<open>events.APIGatewayProxyRequest\<close> the handler reads the query string parameters only.\<close>

record APIGatewayProxyRequest =
  QueryStringParameters :: "char gomap"

definition geoParams :: "APIGatewayProxyRequest \<Rightarrow> char gomap" where
  "geoParams request =
    (let location = index (QueryStringParameters request) ''location'';
         radius = index (QueryStringParameters request) ''radius'';
         name = index (QueryStringParameters request) ''name'';
         key = ''API KEY HERE'';
         geoParams = [(''location'', location), (''radius'', radius), (''key'', key)]
     in if name \<noteq> '''' then assign geoParams ''name'' name else geoParams)"

section \<open>The inbound adapter: call and envelope (getnearbylocation/main.go, lines 43-52)\<close>

text \<open>
  \<^verbatim>\<open>events.APIGatewayProxyResponse\<close>; the handler sets \<^verbatim>\<open>Body\<close> and \<^verbatim>\<open>StatusCode\<close> and leaves
  the other fields at their zero values. The second result is the error handed to the
  runtime that invoked the handler.
\<close>

record APIGatewayProxyResponse =
  StatusCode :: int
  Headers :: "char gomap"
  MultiValueHeaders :: "string gomap"
  Body :: string
  IsBase64Encoded :: bool

definition Handler ::
  "env \<Rightarrow> APIGatewayProxyRequest \<Rightarrow> (APIGatewayProxyResponse \<times> error option) \<times> event list" where
  "Handler env request =
    (let ((googleResp, err), events) = PlaceNearby env (geoParams request)
     in case err of
          Some err \<Rightarrow>
            ((\<lparr>StatusCode = 400, Headers = [], MultiValueHeaders = [], Body = ''Error'',
               IsBase64Encoded = False\<rparr>, Some err), events)
        | None \<Rightarrow>
            (let (jsonString, _) = Marshal env googleResp
             in ((\<lparr>StatusCode = 200, Headers = [], MultiValueHeaders = [], Body = jsonString,
                    IsBase64Encoded = False\<rparr>, None), events)))"

section \<open>The three lookups side by side\<close>

text \<open>
  The three functions return values of three types. To state a property of all of them at
  once, the parts that do not depend on the type are read off each function: the error, the
  events, and whether the returned value is the zero value or the value that the decoder of
  that lookup makes of given bytes.
\<close>

datatype lookup = Geocode | FindPlaceFromText | NearbySearch

fun endpoint :: "lookup \<Rightarrow> string" where
  "endpoint Geocode = ''https://maps.googleapis.com/maps/api/geocode/json''"
| "endpoint FindPlaceFromText = ''https://maps.googleapis.com/maps/api/place/findplacefromtext/json''"
| "endpoint NearbySearch = ''https://maps.googleapis.com/maps/api/place/nearbysearch/json''"

fun errorOf :: "lookup \<Rightarrow> env \<Rightarrow> char gomap \<Rightarrow> error option" where
  "errorOf Geocode env params = snd (fst (GetGeocode env params))"
| "errorOf FindPlaceFromText env params = snd (fst (FindPlace env params))"
| "errorOf NearbySearch env params = snd (fst (PlaceNearby env params))"

fun eventsOf :: "lookup \<Rightarrow> env \<Rightarrow> char gomap \<Rightarrow> event list" where
  "eventsOf Geocode env params = snd (GetGeocode env params)"
| "eventsOf FindPlaceFromText env params = snd (FindPlace env params)"
| "eventsOf NearbySearch env params = snd (PlaceNearby env params)"

fun returnsZero :: "lookup \<Rightarrow> env \<Rightarrow> char gomap \<Rightarrow> bool" where
  "returnsZero Geocode env params = (fst (fst (GetGeocode env params)) = zeroGeocode)"
| "returnsZero FindPlaceFromText env params = (fst (fst (FindPlace env params)) = zeroPlaceSearch)"
| "returnsZero NearbySearch env params = (fst (fst (PlaceNearby env params)) = zeroNearbySearch)"

fun decodeError :: "lookup \<Rightarrow> env \<Rightarrow> string \<Rightarrow> error option" where
  "decodeError Geocode env contents = snd (UnmarshalGeocode env contents zeroGeocode)"
| "decodeError FindPlaceFromText env contents =
     snd (UnmarshalPlaceSearch env contents zeroPlaceSearch)"
| "decodeError NearbySearch env contents =
     snd (UnmarshalNearbySearch env contents zeroNearbySearch)"

fun returnsDecoded :: "lookup \<Rightarrow> env \<Rightarrow> char gomap \<Rightarrow> string \<Rightarrow> bool" where
  "returnsDecoded Geocode env params contents =
     (fst (fst (GetGeocode env params)) = fst (UnmarshalGeocode env contents zeroGeocode))"
| "returnsDecoded FindPlaceFromText env params contents =
     (fst (fst (FindPlace env params)) = fst (UnmarshalPlaceSearch env contents zeroPlaceSearch))"
| "returnsDecoded NearbySearch env params contents =
     (fst (fst (PlaceNearby env params)) = fst (UnmarshalNearbySearch env contents zeroNearbySearch))"

text \<open>The requests a call sent, and how often it closed a body.\<close>

fun sent :: "event list \<Rightarrow> Request list" where
  "sent [] = []"
| "sent (EvDo req # es) = req # sent es"
| "sent (e # es) = sent es"

definition closes :: "event list \<Rightarrow> nat" where
  "closes es = length (filter (\<lambda>e. e = EvClose) es)"

section \<open>The outbound call as the specification describes it\<close>

text \<open>
  One primitive with the target URL, the zero value of the destination schema and its decoder
  as parameters, in the five steps of the specification: build the request, attach the
  parameters, execute, check the status, decode. It is written from the description and is
  compared with the three functions of the source below.
\<close>

definition attachParams :: "char gomap \<Rightarrow> Request \<Rightarrow> Request" where
  "attachParams params req =
    req\<lparr>URL := (URL req)\<lparr>RawQuery :=
      Encode (foldl (\<lambda>q (key, val). Add q key val) (Query (URL req)) params)\<rparr>\<rparr>"

definition checkStatus :: "Response \<Rightarrow> error option" where
  "checkStatus resp = (if resp_StatusCode resp = 200 then None else Some (ErrorsNew ''Status not OK''))"

definition decodeBody :: "(string \<Rightarrow> 'v \<Rightarrow> 'v \<times> error option) \<Rightarrow> 'v \<Rightarrow> Response \<Rightarrow> 'v \<times> error option" where
  "decodeBody unmarshal zero resp =
    (case snd (ReadAll (resp_Body resp)) of
       Some err \<Rightarrow> (zero, Some err)
     | None \<Rightarrow> unmarshal (fst (ReadAll (resp_Body resp))) zero)"

definition outboundCall ::
  "(Request \<Rightarrow> error + Response) \<Rightarrow> (string \<Rightarrow> 'v \<Rightarrow> 'v \<times> error option) \<Rightarrow> string \<Rightarrow> 'v \<Rightarrow>
   char gomap \<Rightarrow> ('v \<times> error option) \<times> event list" where
  "outboundCall transport unmarshal target zero params =
    (case NewRequest ''GET'' target of
       Inl err \<Rightarrow> ((zero, Some err), [])
     | Inr built \<Rightarrow>
        (case transport (attachParams params built) of
           Inl err \<Rightarrow> ((zero, Some err), [EvDo (attachParams params built)])
         | Inr resp \<Rightarrow>
            (case checkStatus resp of
               Some err \<Rightarrow> ((zero, Some err), [EvDo (attachParams params built)])
             | None \<Rightarrow>
                (decodeBody unmarshal zero resp,
                 [EvDo (attachParams params built), EvReadAll, EvClose]))))"

text \<open>The query values that hold each entry of a parameter mapping once.\<close>

definition singletons :: "char gomap \<Rightarrow> Values" where
  "singletons params = map (\<lambda>(key, val). (key, [val])) params"

text \<open>
  The query string of a list of pairs, and the entries of a parameter mapping in the order of
  their keys.
\<close>

fun queryString :: "(string \<times> string) list \<Rightarrow> string" where
  "queryString [] = ''''"
| "queryString [(key, val)] = QueryEscape key @ ''='' @ QueryEscape val"
| "queryString ((key, val) # p # ps) =
     QueryEscape key @ ''='' @ QueryEscape val @ ''&'' @ queryString (p # ps)"

definition entries :: "char gomap \<Rightarrow> (string \<times> string) list" where
  "entries params = map (\<lambda>key. (key, index params key)) (sort (map fst params))"

section \<open>The JSON codec on the nearby-search schema\<close>

text \<open>
  Modelled from the spec: \<^verbatim>\<open>json.Marshal\<close> and \<^verbatim>\<open>json.Unmarshal\<close>, which the repository calls on
  \<^verbatim>\<open>GoogleNearbySearchResponse\<close>, are the Go library \<^verbatim>\<open>encoding/json\<close> and are not under src/.
  The specification asks that encoding a decoded result schema and decoding it again gives an
  identical structure, and that no field of an entry need be present. The two functions are
  written out here for this one schema, from the struct declarations and their tags (source
  lines 28-93) and from the rules of the library's documentation:
  \<^item> decoding an object into a struct takes the members in order; a key selects the field with
    that tag, or else the first field whose tag is the same under the library's case folding;
    a key with no field is skipped; the value is decoded into the current value of the field;
  \<^item> \<^verbatim>\<open>null\<close> sets a slice or an \<^verbatim>\<open>interface{}\<close> to nil and leaves any other target as it is;
  \<^item> an array decoded into a slice resets the slice and appends each element, decoded into a
    zero element; an empty array gives an empty slice that is not nil;
  \<^item> an \<^verbatim>\<open>interface{}\<close> receives nil, a bool, a float64, a string, a \<^verbatim>\<open>[]interface{}\<close> or a
    \<^verbatim>\<open>map[string]interface{}\<close> (a later member with the same key replaces the earlier one);
  \<^item> a value that does not fit its target, or a number that the target type cannot hold, is
    skipped, decoding goes on, and the first such error is returned with the value;
  \<^item> encoding writes the fields of a struct in the order of their declaration under their
    tags and leaves out an \<^verbatim>\<open>omitempty\<close> field that is \<^verbatim>\<open>""\<close> or \<^verbatim>\<open>0\<close>; a nil slice and a nil
    interface are written \<^verbatim>\<open>null\<close>; the keys of a map are written in sorted order; a float64
    that is NaN or infinite makes the encoding fail.

  A payload is given as the JSON value it parses to; the text of JSON (white space, escapes,
  the syntax error of a payload that is not JSON) is below this model. A string of a payload
  is the Go string its literal denotes, and the encoder writes a string of a decoded value as
  a literal that denotes it again. A number of a payload is given by what
  \<^verbatim>\<open>strconv.ParseFloat\<close> and \<^verbatim>\<open>strconv.ParseInt\<close> read from its literal, which is all the decoder
  uses of it: the float64 (absent when the literal is out of range; the infinities that
  \<^verbatim>\<open>ParseFloat\<close> reports together with its range error count as absent) and the integer (absent
  when the literal is not an integer that fits). The encoder writes a float64 with the
  shortest digits that \<^verbatim>\<open>ParseFloat\<close> reads back as the same float64, and an integer in decimal;
  what the other parser reads from such a literal is left to the library.
\<close>

datatype document =
    DNull
  | DBool bool
  | DNumber "float64 option" "int option"
  | DString string
  | DArray "document list"
  | DObject "(string \<times> document) list"

record jsonlib =
  foldName :: "string \<Rightarrow> string"
  floatTextAsInt :: "float64 \<Rightarrow> int option"
  intTextAsFloat :: "int \<Rightarrow> float64 option"

definition isFinite :: "float64 \<Rightarrow> bool" where
  "isFinite f = (take_bit 11 (drop_bit 52 f) \<noteq> 2047)"

definition typeError :: error where
  "typeError = DecodeError ''json: cannot unmarshal value into Go value''"

definition keep :: "error option \<Rightarrow> error option \<Rightarrow> error option" where
  "keep e1 e2 = (case e1 of None \<Rightarrow> e2 | Some e \<Rightarrow> Some e)"

definition firstError :: "error option list \<Rightarrow> error option" where
  "firstError es = foldr keep es None"

definition store :: "'a \<times> error option \<Rightarrow> ('a \<Rightarrow> 's) \<Rightarrow> 's \<times> error option" where
  "store r upd = (upd (fst r), snd r)"

definition fieldOf :: "jsonlib \<Rightarrow> string list \<Rightarrow> string \<Rightarrow> string option" where
  "fieldOf lib tags key =
    (if key \<in> set tags then Some key
     else find (\<lambda>tag. foldName lib tag = foldName lib key) tags)"

definition decString :: "document \<Rightarrow> string \<Rightarrow> string \<times> error option" where
  "decString d cur =
    (case d of DString s \<Rightarrow> (s, None) | DNull \<Rightarrow> (cur, None) | _ \<Rightarrow> (cur, Some typeError))"

definition decBool :: "document \<Rightarrow> bool \<Rightarrow> bool \<times> error option" where
  "decBool d cur =
    (case d of DBool b \<Rightarrow> (b, None) | DNull \<Rightarrow> (cur, None) | _ \<Rightarrow> (cur, Some typeError))"

definition decInt :: "document \<Rightarrow> int \<Rightarrow> int \<times> error option" where
  "decInt d cur =
    (case d of
       DNumber f (Some n) \<Rightarrow> (n, None)
     | DNull \<Rightarrow> (cur, None)
     | _ \<Rightarrow> (cur, Some typeError))"

definition decFloat :: "document \<Rightarrow> float64 \<Rightarrow> float64 \<times> error option" where
  "decFloat d cur =
    (case d of
       DNumber (Some f) n \<Rightarrow> if isFinite f then (f, None) else (cur, Some typeError)
     | DNull \<Rightarrow> (cur, None)
     | _ \<Rightarrow> (cur, Some typeError))"

fun put :: "string \<Rightarrow> 'v \<Rightarrow> (string \<times> 'v) list \<Rightarrow> (string \<times> 'v) list" where
  "put key v [] = [(key, v)]"
| "put key v ((key', v') # ms) =
    (if key < key' then (key, v) # (key', v') # ms
     else if key = key' then (key, v) # ms
     else (key', v') # put key v ms)"

fun dynValue :: "document \<Rightarrow> JSONValue" where
  "dynValue DNull = JNull"
| "dynValue (DBool b) = JBool b"
| "dynValue (DNumber f n) =
    (case f of Some x \<Rightarrow> if isFinite x then JNumber x else JNull | None \<Rightarrow> JNull)"
| "dynValue (DString s) = JString s"
| "dynValue (DArray ds) = JArray (map dynValue ds)"
| "dynValue (DObject ms) =
    JObject (foldl (\<lambda>m p. put (fst p) (snd p) m) [] (map (\<lambda>p. (fst p, dynValue (snd p))) ms))"

fun dynError :: "document \<Rightarrow> error option" where
  "dynError (DNumber f n) =
    (case f of Some x \<Rightarrow> if isFinite x then None else Some typeError | None \<Rightarrow> Some typeError)"
| "dynError (DArray ds) = firstError (map dynError ds)"
| "dynError (DObject ms) = firstError (map (\<lambda>p. dynError (snd p)) ms)"
| "dynError d = None"

definition decSlice ::
  "(document \<Rightarrow> 'a \<times> error option) \<Rightarrow> document \<Rightarrow> 'a slice \<Rightarrow> 'a slice \<times> error option" where
  "decSlice element d cur =
    (case d of
       DArray ds \<Rightarrow> (Some (map (\<lambda>d. fst (element d)) ds), firstError (map (\<lambda>d. snd (element d)) ds))
     | DNull \<Rightarrow> (None, None)
     | _ \<Rightarrow> (cur, Some typeError))"

definition withError :: "error option \<Rightarrow> 's \<times> error option \<Rightarrow> 's \<times> error option" where
  "withError e r = (fst r, keep e (snd r))"

definition memberStep ::
  "(string \<Rightarrow> document \<Rightarrow> 's \<Rightarrow> 's \<times> error option) \<Rightarrow> 's \<times> error option \<Rightarrow> string \<times> document
    \<Rightarrow> 's \<times> error option" where
  "memberStep member acc p = withError (snd acc) (member (fst p) (snd p) (fst acc))"

definition decObject ::
  "(string \<Rightarrow> document \<Rightarrow> 's \<Rightarrow> 's \<times> error option) \<Rightarrow> document \<Rightarrow> 's \<Rightarrow> 's \<times> error option" where
  "decObject member d cur =
    (case d of
       DObject ms \<Rightarrow> foldl (memberStep member) (cur, None) ms
     | DNull \<Rightarrow> (cur, None)
     | _ \<Rightarrow> (cur, Some typeError))"

subsection \<open>Zero values of the nested structs\<close>

definition zeroLocation :: GoogleLocation where
  "zeroLocation = \<lparr>Lat = 0, Lng = 0\<rparr>"

definition zeroViewport :: GoogleViewport where
  "zeroViewport = \<lparr>Northeast = zeroLocation, SouthWest = zeroLocation\<rparr>"

definition zeroGeometry :: GoogleGeometry where
  "zeroGeometry = \<lparr>Location = zeroLocation, LocationType = '''', Viewport = zeroViewport\<rparr>"

definition zeroPlusCode :: GooglePlusCode where
  "zeroPlusCode = \<lparr>CompoundCode = '''', GlobalCode = ''''\<rparr>"

definition zeroOpeningHour :: OpeningHour where
  "zeroOpeningHour = \<lparr>OpenNow = False\<rparr>"

definition zeroPhoto :: Photo where
  "zeroPhoto = \<lparr>Height = 0, Photo.HTMLAttributions = None, PhotoReference = '''', Width = 0\<rparr>"

definition zeroNearbyResult :: NearbyResult where
  "zeroNearbyResult =
    \<lparr>Geometry = zeroGeometry, Icon = '''', ID = '''', Name = '''', OpeningHours = zeroOpeningHour,
     Photos = None, PlaceID = '''', PlusCode = zeroPlusCode, PriceLevel = 0, Rating = 0,
     Reference = '''', Scope = '''', Types = None, UserRatingsTotal = 0, Vicinity = ''''\<rparr>"

subsection \<open>Decoding\<close>

definition locationField ::
  "string option \<Rightarrow> document \<Rightarrow> GoogleLocation \<Rightarrow> GoogleLocation \<times> error option" where
  "locationField field d s =
    (if field = Some ''lat'' then store (decFloat d (Lat s)) (\<lambda>x. s\<lparr>Lat := x\<rparr>)
     else if field = Some ''lng'' then store (decFloat d (Lng s)) (\<lambda>x. s\<lparr>Lng := x\<rparr>)
     else (s, None))"

definition locationMember ::
  "jsonlib \<Rightarrow> string \<Rightarrow> document \<Rightarrow> GoogleLocation \<Rightarrow> GoogleLocation \<times> error option" where
  "locationMember lib key d s =
    locationField (fieldOf lib [''lat'', ''lng''] key) d s"

definition decLocation :: "jsonlib \<Rightarrow> document \<Rightarrow> GoogleLocation \<Rightarrow> GoogleLocation \<times> error option" where
  "decLocation lib = decObject (locationMember lib)"

definition viewportField ::
  "jsonlib \<Rightarrow> string option \<Rightarrow> document \<Rightarrow> GoogleViewport \<Rightarrow> GoogleViewport \<times> error option" where
  "viewportField lib field d s =
    (if field = Some ''northeast'' then
       store (decLocation lib d (Northeast s)) (\<lambda>x. s\<lparr>Northeast := x\<rparr>)
     else if field = Some ''southwest'' then
       store (decLocation lib d (SouthWest s)) (\<lambda>x. s\<lparr>SouthWest := x\<rparr>)
     else (s, None))"

definition viewportMember ::
  "jsonlib \<Rightarrow> string \<Rightarrow> document \<Rightarrow> GoogleViewport \<Rightarrow> GoogleViewport \<times> error option" where
  "viewportMember lib key d s =
    viewportField lib (fieldOf lib [''northeast'', ''southwest''] key) d s"

definition decViewport :: "jsonlib \<Rightarrow> document \<Rightarrow> GoogleViewport \<Rightarrow> GoogleViewport \<times> error option" where
  "decViewport lib = decObject (viewportMember lib)"

definition geometryField ::
  "jsonlib \<Rightarrow> string option \<Rightarrow> document \<Rightarrow> GoogleGeometry \<Rightarrow> GoogleGeometry \<times> error option" where
  "geometryField lib field d s =
    (if field = Some ''location'' then
       store (decLocation lib d (Location s)) (\<lambda>x. s\<lparr>Location := x\<rparr>)
     else if field = Some ''location_type'' then
       store (decString d (LocationType s)) (\<lambda>x. s\<lparr>LocationType := x\<rparr>)
     else if field = Some ''viewport'' then
       store (decViewport lib d (Viewport s)) (\<lambda>x. s\<lparr>Viewport := x\<rparr>)
     else (s, None))"

definition geometryMember ::
  "jsonlib \<Rightarrow> string \<Rightarrow> document \<Rightarrow> GoogleGeometry \<Rightarrow> GoogleGeometry \<times> error option" where
  "geometryMember lib key d s =
    geometryField lib (fieldOf lib [''location'', ''location_type'', ''viewport''] key) d s"

definition decGeometry :: "jsonlib \<Rightarrow> document \<Rightarrow> GoogleGeometry \<Rightarrow> GoogleGeometry \<times> error option" where
  "decGeometry lib = decObject (geometryMember lib)"

definition plusCodeField ::
  "string option \<Rightarrow> document \<Rightarrow> GooglePlusCode \<Rightarrow> GooglePlusCode \<times> error option" where
  "plusCodeField field d s =
    (if field = Some ''compound_code'' then
       store (decString d (CompoundCode s)) (\<lambda>x. s\<lparr>CompoundCode := x\<rparr>)
     else if field = Some ''global_code'' then
       store (decString d (GlobalCode s)) (\<lambda>x. s\<lparr>GlobalCode := x\<rparr>)
     else (s, None))"

definition plusCodeMember ::
  "jsonlib \<Rightarrow> string \<Rightarrow> document \<Rightarrow> GooglePlusCode \<Rightarrow> GooglePlusCode \<times> error option" where
  "plusCodeMember lib key d s =
    plusCodeField (fieldOf lib [''compound_code'', ''global_code''] key) d s"

definition decPlusCode :: "jsonlib \<Rightarrow> document \<Rightarrow> GooglePlusCode \<Rightarrow> GooglePlusCode \<times> error option" where
  "decPlusCode lib = decObject (plusCodeMember lib)"

definition openingHourField ::
  "string option \<Rightarrow> document \<Rightarrow> OpeningHour \<Rightarrow> OpeningHour \<times> error option" where
  "openingHourField field d s =
    (if field = Some ''open_now'' then store (decBool d (OpenNow s)) (\<lambda>x. s\<lparr>OpenNow := x\<rparr>)
     else (s, None))"

definition openingHourMember ::
  "jsonlib \<Rightarrow> string \<Rightarrow> document \<Rightarrow> OpeningHour \<Rightarrow> OpeningHour \<times> error option" where
  "openingHourMember lib key d s =
    openingHourField (fieldOf lib [''open_now''] key) d s"

definition decOpeningHour :: "jsonlib \<Rightarrow> document \<Rightarrow> OpeningHour \<Rightarrow> OpeningHour \<times> error option" where
  "decOpeningHour lib = decObject (openingHourMember lib)"

definition photoField ::
  "string option \<Rightarrow> document \<Rightarrow> Photo \<Rightarrow> Photo \<times> error option" where
  "photoField field d s =
    (if field = Some ''height'' then
       store (decInt d (Height s)) (\<lambda>x. s\<lparr>Height := x\<rparr>)
     else if field = Some ''html_attributions'' then
       store (decSlice (\<lambda>d. decString d '''') d (Photo.HTMLAttributions s))
         (\<lambda>x. s\<lparr>Photo.HTMLAttributions := x\<rparr>)
     else if field = Some ''photo_reference'' then
       store (decString d (PhotoReference s)) (\<lambda>x. s\<lparr>PhotoReference := x\<rparr>)
     else if field = Some ''width'' then
       store (decInt d (Width s)) (\<lambda>x. s\<lparr>Width := x\<rparr>)
     else (s, None))"

definition photoMember ::
  "jsonlib \<Rightarrow> string \<Rightarrow> document \<Rightarrow> Photo \<Rightarrow> Photo \<times> error option" where
  "photoMember lib key d s =
    photoField (fieldOf lib [''height'', ''html_attributions'', ''photo_reference'', ''width''] key) d s"

definition decPhoto :: "jsonlib \<Rightarrow> document \<Rightarrow> Photo \<Rightarrow> Photo \<times> error option" where
  "decPhoto lib = decObject (photoMember lib)"

definition nearbyResultTags :: "string list" where
  "nearbyResultTags =
    [''geometry'', ''icon'', ''id'', ''name'', ''opening_hours'', ''photos'', ''place_id'',
     ''plus_code'', ''price_level'', ''rating'', ''reference'', ''scope'', ''types'',
     ''user_ratings_total'', ''vicinity'']"

definition nearbyResultField ::
  "jsonlib \<Rightarrow> string option \<Rightarrow> document \<Rightarrow> NearbyResult \<Rightarrow> NearbyResult \<times> error option" where
  "nearbyResultField lib field d s =
    (if field = Some ''geometry'' then
       store (decGeometry lib d (Geometry s)) (\<lambda>x. s\<lparr>Geometry := x\<rparr>)
     else if field = Some ''icon'' then store (decString d (Icon s)) (\<lambda>x. s\<lparr>Icon := x\<rparr>)
     else if field = Some ''id'' then store (decString d (ID s)) (\<lambda>x. s\<lparr>ID := x\<rparr>)
     else if field = Some ''name'' then store (decString d (Name s)) (\<lambda>x. s\<lparr>Name := x\<rparr>)
     else if field = Some ''opening_hours'' then
       store (decOpeningHour lib d (OpeningHours s)) (\<lambda>x. s\<lparr>OpeningHours := x\<rparr>)
     else if field = Some ''photos'' then
       store (decSlice (\<lambda>d. decPhoto lib d zeroPhoto) d (Photos s)) (\<lambda>x. s\<lparr>Photos := x\<rparr>)
     else if field = Some ''place_id'' then
       store (decString d (PlaceID s)) (\<lambda>x. s\<lparr>PlaceID := x\<rparr>)
     else if field = Some ''plus_code'' then
       store (decPlusCode lib d (PlusCode s)) (\<lambda>x. s\<lparr>PlusCode := x\<rparr>)
     else if field = Some ''price_level'' then
       store (decInt d (PriceLevel s)) (\<lambda>x. s\<lparr>PriceLevel := x\<rparr>)
     else if field = Some ''rating'' then
       store (decFloat d (Rating s)) (\<lambda>x. s\<lparr>Rating := x\<rparr>)
     else if field = Some ''reference'' then
       store (decString d (Reference s)) (\<lambda>x. s\<lparr>Reference := x\<rparr>)
     else if field = Some ''scope'' then store (decString d (Scope s)) (\<lambda>x. s\<lparr>Scope := x\<rparr>)
     else if field = Some ''types'' then
       store (decSlice (\<lambda>d. decString d '''') d (Types s)) (\<lambda>x. s\<lparr>Types := x\<rparr>)
     else if field = Some ''user_ratings_total'' then
       store (decInt d (UserRatingsTotal s)) (\<lambda>x. s\<lparr>UserRatingsTotal := x\<rparr>)
     else if field = Some ''vicinity'' then
       store (decString d (Vicinity s)) (\<lambda>x. s\<lparr>Vicinity := x\<rparr>)
     else (s, None))"

definition nearbyResultMember ::
  "jsonlib \<Rightarrow> string \<Rightarrow> document \<Rightarrow> NearbyResult \<Rightarrow> NearbyResult \<times> error option" where
  "nearbyResultMember lib key d s =
    nearbyResultField lib (fieldOf lib nearbyResultTags key) d s"

definition decNearbyResult :: "jsonlib \<Rightarrow> document \<Rightarrow> NearbyResult \<Rightarrow> NearbyResult \<times> error option" where
  "decNearbyResult lib = decObject (nearbyResultMember lib)"

definition nearbySearchField ::
  "jsonlib \<Rightarrow> string option \<Rightarrow> document \<Rightarrow> GoogleNearbySearchResponse
    \<Rightarrow> GoogleNearbySearchResponse \<times> error option" where
  "nearbySearchField lib field d s =
    (if field = Some ''html_attributions'' then
       store (decSlice (\<lambda>d. (dynValue d, dynError d)) d (HTMLAttributions s))
         (\<lambda>x. s\<lparr>HTMLAttributions := x\<rparr>)
     else if field = Some ''results'' then
       store (decSlice (\<lambda>d. decNearbyResult lib d zeroNearbyResult) d (Results s))
         (\<lambda>x. s\<lparr>Results := x\<rparr>)
     else if field = Some ''status'' then store (decString d (Status s)) (\<lambda>x. s\<lparr>Status := x\<rparr>)
     else (s, None))"

definition nearbySearchMember ::
  "jsonlib \<Rightarrow> string \<Rightarrow> document \<Rightarrow> GoogleNearbySearchResponse
    \<Rightarrow> GoogleNearbySearchResponse \<times> error option" where
  "nearbySearchMember lib key d s =
    nearbySearchField lib (fieldOf lib [''html_attributions'', ''results'', ''status''] key) d s"

definition unmarshalNearbySearch ::
  "jsonlib \<Rightarrow> document \<Rightarrow> GoogleNearbySearchResponse \<Rightarrow> GoogleNearbySearchResponse \<times> error option" where
  "unmarshalNearbySearch lib = decObject (nearbySearchMember lib)"

subsection \<open>Encoding\<close>

definition encInt :: "jsonlib \<Rightarrow> int \<Rightarrow> document" where
  "encInt lib n = DNumber (intTextAsFloat lib n) (Some n)"

definition encFloat :: "jsonlib \<Rightarrow> float64 \<Rightarrow> document" where
  "encFloat lib f = DNumber (Some f) (floatTextAsInt lib f)"

definition encSlice :: "('a \<Rightarrow> document) \<Rightarrow> 'a slice \<Rightarrow> document" where
  "encSlice element s = (case s of None \<Rightarrow> DNull | Some xs \<Rightarrow> DArray (map element xs))"

definition omitEmpty :: "bool \<Rightarrow> string \<Rightarrow> document \<Rightarrow> (string \<times> document) list" where
  "omitEmpty isEmpty key d = (if isEmpty then [] else [(key, d)])"

fun encDyn :: "jsonlib \<Rightarrow> JSONValue \<Rightarrow> document" where
  "encDyn lib JNull = DNull"
| "encDyn lib (JBool b) = DBool b"
| "encDyn lib (JNumber f) = encFloat lib f"
| "encDyn lib (JString s) = DString s"
| "encDyn lib (JArray vs) = DArray (map (encDyn lib) vs)"
| "encDyn lib (JObject ms) = DObject (sort_key fst (map (\<lambda>p. (fst p, encDyn lib (snd p))) ms))"

definition encLocation :: "jsonlib \<Rightarrow> GoogleLocation \<Rightarrow> document" where
  "encLocation lib l = DObject [(''lat'', encFloat lib (Lat l)), (''lng'', encFloat lib (Lng l))]"

definition encViewport :: "jsonlib \<Rightarrow> GoogleViewport \<Rightarrow> document" where
  "encViewport lib v =
    DObject [(''northeast'', encLocation lib (Northeast v)),
             (''southwest'', encLocation lib (SouthWest v))]"

definition encGeometry :: "jsonlib \<Rightarrow> GoogleGeometry \<Rightarrow> document" where
  "encGeometry lib g =
    DObject ([(''location'', encLocation lib (Location g))]
             @ omitEmpty (LocationType g = '''') ''location_type'' (DString (LocationType g))
             @ [(''viewport'', encViewport lib (Viewport g))])"

definition encPlusCode :: "GooglePlusCode \<Rightarrow> document" where
  "encPlusCode c =
    DObject [(''compound_code'', DString (CompoundCode c)),
             (''global_code'', DString (GlobalCode c))]"

definition encOpeningHour :: "OpeningHour \<Rightarrow> document" where
  "encOpeningHour h = DObject [(''open_now'', DBool (OpenNow h))]"

definition encPhoto :: "jsonlib \<Rightarrow> Photo \<Rightarrow> document" where
  "encPhoto lib p =
    DObject [(''height'', encInt lib (Height p)),
             (''html_attributions'', encSlice DString (Photo.HTMLAttributions p)),
             (''photo_reference'', DString (PhotoReference p)),
             (''width'', encInt lib (Width p))]"

definition encNearbyResult :: "jsonlib \<Rightarrow> NearbyResult \<Rightarrow> document" where
  "encNearbyResult lib r =
    DObject ([(''geometry'', encGeometry lib (Geometry r)),
              (''icon'', DString (Icon r)),
              (''id'', DString (ID r)),
              (''name'', DString (Name r)),
              (''opening_hours'', encOpeningHour (OpeningHours r)),
              (''photos'', encSlice (encPhoto lib) (Photos r)),
              (''place_id'', DString (PlaceID r)),
              (''plus_code'', encPlusCode (PlusCode r))]
             @ omitEmpty (PriceLevel r = 0) ''price_level'' (encInt lib (PriceLevel r))
             @ [(''rating'', encFloat lib (Rating r)),
                (''reference'', DString (Reference r)),
                (''scope'', DString (Scope r)),
                (''types'', encSlice DString (Types r)),
                (''user_ratings_total'', encInt lib (UserRatingsTotal r)),
                (''vicinity'', DString (Vicinity r))])"

definition encNearbySearch :: "jsonlib \<Rightarrow> GoogleNearbySearchResponse \<Rightarrow> document" where
  "encNearbySearch lib x =
    DObject [(''html_attributions'', encSlice (encDyn lib) (HTMLAttributions x)),
             (''results'', encSlice (encNearbyResult lib) (Results x)),
             (''status'', DString (Status x))]"

definition elements :: "'a slice \<Rightarrow> 'a list" where
  "elements s = (case s of None \<Rightarrow> [] | Some xs \<Rightarrow> xs)"

fun finiteDyn :: "JSONValue \<Rightarrow> bool" where
  "finiteDyn (JNumber f) = isFinite f"
| "finiteDyn (JArray vs) = (\<forall>v \<in> set vs. finiteDyn v)"
| "finiteDyn (JObject ms) = (\<forall>p \<in> set ms. finiteDyn (snd p))"
| "finiteDyn v = True"

definition finiteLocation :: "GoogleLocation \<Rightarrow> bool" where
  "finiteLocation l = (isFinite (Lat l) \<and> isFinite (Lng l))"

definition finiteGeometry :: "GoogleGeometry \<Rightarrow> bool" where
  "finiteGeometry g =
    (finiteLocation (Location g) \<and> finiteLocation (Northeast (Viewport g))
     \<and> finiteLocation (SouthWest (Viewport g)))"

definition finiteNearbyResult :: "NearbyResult \<Rightarrow> bool" where
  "finiteNearbyResult r = (finiteGeometry (Geometry r) \<and> isFinite (Rating r))"

definition encodable :: "GoogleNearbySearchResponse \<Rightarrow> bool" where
  "encodable x =
    ((\<forall>v \<in> set (elements (HTMLAttributions x)). finiteDyn v)
     \<and> (\<forall>r \<in> set (elements (Results x)). finiteNearbyResult r))"

definition marshalNearbySearch :: "jsonlib \<Rightarrow> GoogleNearbySearchResponse \<Rightarrow> error + document" where
  "marshalNearbySearch lib x =
    (if encodable x then Inr (encNearbySearch lib x)
     else Inl (EncodeError ''json: unsupported value''))"

fun keysInOrder :: "JSONValue \<Rightarrow> bool" where
  "keysInOrder (JArray vs) = (\<forall>v \<in> set vs. keysInOrder v)"
| "keysInOrder (JObject ms) =
    (sorted_wrt (<) (map fst ms) \<and> (\<forall>p \<in> set ms. keysInOrder (snd p)))"
| "keysInOrder v = True"

text \<open>
  The values on which the two functions are inverse to each other: every float64 is finite, and
  every dynamic map has its entries in the order of their keys.
\<close>

definition finiteViewport :: "GoogleViewport \<Rightarrow> bool" where
  "finiteViewport v = (finiteLocation (Northeast v) \<and> finiteLocation (SouthWest v))"

definition proper :: "GoogleNearbySearchResponse \<Rightarrow> bool" where
  "proper x = (encodable x \<and> (\<forall>v \<in> set (elements (HTMLAttributions x)). keysInOrder v))"

section \<open>Sample upstream behaviours\<close>

text \<open>
  Concrete behaviours of the network and of the codec, on which the functions above can be
  run: an upstream that answers with a given status and body, one that cannot be reached, and
  one whose body breaks off while it is read; a decoder that accepts one payload; an encoder
  that writes the status of a response without results.
\<close>

definition answers :: "int \<Rightarrow> string \<Rightarrow> Request \<Rightarrow> error + Response" where
  "answers status body req = Inr \<lparr>resp_StatusCode = status, resp_Body = (body, None)\<rparr>"

definition unreachable :: "Request \<Rightarrow> error + Response" where
  "unreachable req = Inl (TransportError ''dial tcp: i/o timeout'')"

definition truncated :: "Request \<Rightarrow> error + Response" where
  "truncated req =
    Inr \<lparr>resp_StatusCode = 200, resp_Body = (''{'', Some (ReadError ''unexpected EOF''))\<rparr>"

definition sampleEnv :: "(Request \<Rightarrow> error + Response) \<Rightarrow> env" where
  "sampleEnv transport =
    \<lparr>Do = transport,
     UnmarshalGeocode = (\<lambda>contents x.
        if contents = ''{\"status\":\"OK\"}''
        then (x\<lparr>GoogleGeocodeResponse.Status := ''OK''\<rparr>, None)
        else (x, Some (DecodeError ''invalid character''))),
     UnmarshalPlaceSearch = (\<lambda>contents x.
        if contents = ''{\"status\":\"OK\"}''
        then (x\<lparr>GooglePlaceSearchResponse.Status := ''OK''\<rparr>, None)
        else (x, Some (DecodeError ''invalid character''))),
     UnmarshalNearbySearch = (\<lambda>contents x.
        if contents = ''{\"status\":\"OK\"}'' then (x\<lparr>Status := ''OK''\<rparr>, None)
        else (x, Some (DecodeError ''invalid character''))),
     Marshal = (\<lambda>x.
        (''{\"html_attributions\":null,\"results\":null,\"status\":\"'' @ Status x @ ''\"}'', None))\<rparr>"

definition sampleRequest :: APIGatewayProxyRequest where
  "sampleRequest = \<lparr>QueryStringParameters =
     [(''location'', ''-6.2,106.8''), (''radius'', ''500''), (''name'', ''coffee'')]\<rparr>"

definition sampleParams :: "char gomap" where
  "sampleParams =
     [(''location'', ''-6.2,106.8''), (''radius'', ''500''), (''key'', ''API KEY HERE'')]"

definition sampleSent :: Request where
  "sampleSent = \<lparr>Method = ''GET'', URL = \<lparr>Scheme = ''https'', Opaque = '''',
     Host = ''maps.googleapis.com'', Path = ''/maps/api/place/nearbysearch/json'',
     RawQuery = ''key=API+KEY+HERE&location=-6.2%2C106.8&radius=500''\<rparr>\<rparr>"

text \<open>
  An encoder that fails, as \<^verbatim>\<open>json.Marshal\<close> does when it reports an error: no bytes and the
  error.
\<close>

definition failingEncoder :: "GoogleNearbySearchResponse \<Rightarrow> string \<times> error option" where
  "failingEncoder x = ('''', Some (EncodeError ''json: unsupported value''))"

definition sampleEnvFailingEncoder :: env where
  "sampleEnvFailingEncoder =
     (sampleEnv (answers 200 ''{\"status\":\"OK\"}''))\<lparr>Marshal := failingEncoder\<rparr>"

text \<open>
  A payload for the codec: one entry with a key in another case (\<^verbatim>\<open>Rating\<close>), an unknown
  key, fields that are absent, and a dynamic object whose keys are not in order. The floats are
  4.5, -6.2, 106.8, 3 and 4. Beside it the value the decoder makes of it and the document the
  encoder makes of that value.
\<close>

definition sampleLib :: jsonlib where
  "sampleLib =
    \<lparr>foldName = map toLower,
     floatTextAsInt = (\<lambda>f. if f = 0 then Some 0 else None),
     intTextAsFloat = (\<lambda>n. if n = 0 then Some 0
                           else if n = 3 then Some 0x4008000000000000
                           else if n = 4 then Some 0x4010000000000000
                           else None)\<rparr>"

definition samplePayload :: document where
  "samplePayload = DObject
    [(''html_attributions'',
      DArray [DObject [(''b'', DNull), (''a'', DNumber (Some 0x4012000000000000) None)]]),
     (''results'', DArray [DObject
        [(''name'', DString ''Kopi''),
         (''geometry'', DObject [(''location'', DObject
            [(''lat'', DNumber (Some 0xC018CCCCCCCCCCCD) None),
             (''lng'', DNumber (Some 0x405AB33333333333) None)])]),
         (''Rating'', DNumber (Some 0x4012000000000000) None),
         (''types'', DArray [DString ''cafe'']),
         (''photos'', DArray [DObject
            [(''height'', DNumber (Some 0x4008000000000000) (Some 3)),
             (''width'', DNumber (Some 0x4010000000000000) (Some 4))]]),
         (''opening_hours'', DObject [(''open_now'', DBool True)]),
         (''unknown'', DBool True)]]),
     (''status'', DString ''OK'')]"

definition sampleDecoded :: GoogleNearbySearchResponse where
  "sampleDecoded =
    \<lparr>HTMLAttributions = Some [JObject [(''a'', JNumber 0x4012000000000000), (''b'', JNull)]],
     Results = Some
       [\<lparr>Geometry =
           \<lparr>Location = \<lparr>Lat = 0xC018CCCCCCCCCCCD, Lng = 0x405AB33333333333\<rparr>,
            LocationType = '''', Viewport = zeroViewport\<rparr>,
         Icon = '''', ID = '''', Name = ''Kopi'', OpeningHours = \<lparr>OpenNow = True\<rparr>,
         Photos = Some
           [\<lparr>Height = 3, Photo.HTMLAttributions = None, PhotoReference = '''', Width = 4\<rparr>],
         PlaceID = '''', PlusCode = zeroPlusCode, PriceLevel = 0,
         Rating = 0x4012000000000000, Reference = '''', Scope = '''', Types = Some [''cafe''],
         UserRatingsTotal = 0, Vicinity = ''''\<rparr>],
     Status = ''OK''\<rparr>"

definition sampleEncoded :: document where
  "sampleEncoded = DObject
    [(''html_attributions'',
      DArray [DObject [(''a'', DNumber (Some 0x4012000000000000) None), (''b'', DNull)]]),
     (''results'', DArray [DObject
        [(''geometry'', DObject
           [(''location'', DObject
              [(''lat'', DNumber (Some 0xC018CCCCCCCCCCCD) None),
               (''lng'', DNumber (Some 0x405AB33333333333) None)]),
            (''viewport'', DObject
              [(''northeast'', DObject
                 [(''lat'', DNumber (Some 0) (Some 0)), (''lng'', DNumber (Some 0) (Some 0))]),
               (''southwest'', DObject
                 [(''lat'', DNumber (Some 0) (Some 0)), (''lng'', DNumber (Some 0) (Some 0))])])]),
         (''icon'', DString ''''),
         (''id'', DString ''''),
         (''name'', DString ''Kopi''),
         (''opening_hours'', DObject [(''open_now'', DBool True)]),
         (''photos'', DArray [DObject
            [(''height'', DNumber (Some 0x4008000000000000) (Some 3)),
             (''html_attributions'', DNull),
             (''photo_reference'', DString ''''),
             (''width'', DNumber (Some 0x4010000000000000) (Some 4))]]),
         (''place_id'', DString ''''),
         (''plus_code'', DObject
            [(''compound_code'', DString ''''), (''global_code'', DString '''')]),
         (''rating'', DNumber (Some 0x4012000000000000) None),
         (''reference'', DString ''''),
         (''scope'', DString ''''),
         (''types'', DArray [DString ''cafe'']),
         (''user_ratings_total'', DNumber (Some 0) (Some 0)),
         (''vicinity'', DString '''')]]),
     (''status'', DString ''OK'')]"

section \<open>Properties\<close>

lemma map_of_assign: "map_of (assign m k v) = (map_of m)(k \<mapsto> v)"
  by (simp add: assign_def update_conv')

lemma wellformed_assign: "wellformed m \<Longrightarrow> wellformed (assign m k v)"
  by (simp add: assign_def wellformed_def distinct_update)

text \<open>
  Claim C1. For every inbound request the parameter mapping binds "location", "radius" and
  "key" to the inbound location, the inbound radius and the access key; it binds "name" to the
  inbound name exactly when that name is not the empty string; and it has no other key.
\<close>

theorem geoParams_contents:
  "map_of (geoParams request) ''location'' = Some (index (QueryStringParameters request) ''location'')
   \<and> map_of (geoParams request) ''radius'' = Some (index (QueryStringParameters request) ''radius'')
   \<and> map_of (geoParams request) ''key'' = Some ''API KEY HERE''
   \<and> (''name'' \<in> dom (map_of (geoParams request))
        \<longleftrightarrow> index (QueryStringParameters request) ''name'' \<noteq> '''')
   \<and> (index (QueryStringParameters request) ''name'' \<noteq> '''' \<longrightarrow>
        map_of (geoParams request) ''name'' = Some (index (QueryStringParameters request) ''name''))
   \<and> dom (map_of (geoParams request)) \<subseteq> {''location'', ''radius'', ''key'', ''name''}
   \<and> wellformed (geoParams request)"
  by (auto simp: geoParams_def Let_def map_of_assign assign_def wellformed_def split: if_splits)

theorem geoParams_contents_witness:
  "map_of (geoParams \<lparr>QueryStringParameters =
      [(''location'', ''1,2''), (''radius'', ''50''), (''name'', ''coffee'')]\<rparr>)
     = [''location'' \<mapsto> ''1,2'', ''radius'' \<mapsto> ''50'', ''key'' \<mapsto> ''API KEY HERE'',
        ''name'' \<mapsto> ''coffee'']
   \<and> ''name'' \<notin> dom (map_of (geoParams \<lparr>QueryStringParameters =
      [(''location'', ''1,2''), (''radius'', ''50''), (''name'', '''')]\<rparr>))"
  using geoParams_contents [of "\<lparr>QueryStringParameters =
      [(''location'', ''1,2''), (''radius'', ''50''), (''name'', ''coffee'')]\<rparr>"]
    geoParams_contents [of "\<lparr>QueryStringParameters =
      [(''location'', ''1,2''), (''radius'', ''50''), (''name'', '''')]\<rparr>"]
  by (auto simp: geoParams_def index_def assign_def)

subsection \<open>The three functions and the primitive of the specification\<close>

lemmas char_defs = isLetter_def isDigit_def byte_def isToken_def toLower_def

text \<open>Request construction succeeds on each of the three endpoint literals.\<close>

lemma NewRequest_endpoint:
  "\<exists>built. NewRequest ''GET'' (endpoint v) = Inr built \<and> Method built = ''GET''
      \<and> Parse (endpoint v) = Inr (URL built) \<and> RawQuery (URL built) = ''''"
  by (cases v)
     (simp_all add: NewRequest_def validMethod_def Parse_def stringContainsCTLByte_def
        getScheme_def cut_def char_defs)

lemma GetGeocode_outboundCall:
  "GetGeocode env params =
     outboundCall (Do env) (UnmarshalGeocode env) (endpoint Geocode) zeroGeocode params"
  by (simp add: GetGeocode_def outboundCall_def attachParams_def checkStatus_def decodeBody_def
        Let_def split: sum.split prod.split option.split)

lemma FindPlace_outboundCall:
  "FindPlace env params =
     outboundCall (Do env) (UnmarshalPlaceSearch env) (endpoint FindPlaceFromText)
       zeroPlaceSearch params"
  by (simp add: FindPlace_def outboundCall_def attachParams_def checkStatus_def decodeBody_def
        Let_def split: sum.split prod.split option.split)

lemma PlaceNearby_outboundCall:
  "PlaceNearby env params =
     outboundCall (Do env) (UnmarshalNearbySearch env) (endpoint NearbySearch)
       zeroNearbySearch params"
  by (simp add: PlaceNearby_def outboundCall_def attachParams_def checkStatus_def decodeBody_def
        Let_def split: sum.split prod.split option.split)

lemma outboundCall_built:
  assumes "NewRequest ''GET'' target = Inr built"
  shows "outboundCall transport unmarshal target zero params =
    (case transport (attachParams params built) of
       Inl err \<Rightarrow> ((zero, Some err), [EvDo (attachParams params built)])
     | Inr resp \<Rightarrow>
        if resp_StatusCode resp \<noteq> 200 then
          ((zero, Some (ErrorsNew ''Status not OK'')), [EvDo (attachParams params built)])
        else
          (case ReadAll (resp_Body resp) of
             (contents, Some err) \<Rightarrow>
               ((zero, Some err), [EvDo (attachParams params built), EvReadAll, EvClose])
           | (contents, None) \<Rightarrow>
               (unmarshal contents zero, [EvDo (attachParams params built), EvReadAll, EvClose])))"
  using assms
  by (simp add: outboundCall_def checkStatus_def decodeBody_def
        split: sum.split prod.split option.split)

text \<open>
  Claim C7. GetGeocode, FindPlace and PlaceNearby are one control flow: each is the primitive
  of the specification (build the request, attach the encoded query, execute, check that the
  status is 200, read the body, decode) at its own target URL and its own destination schema,
  with the same results, the same error branches and the same events, for every parameter
  mapping and every behaviour of the upstream.
\<close>

theorem three_lookups_one_control_flow:
  "GetGeocode env params =
     outboundCall (Do env) (UnmarshalGeocode env)
       ''https://maps.googleapis.com/maps/api/geocode/json'' zeroGeocode params
   \<and> FindPlace env params =
     outboundCall (Do env) (UnmarshalPlaceSearch env)
       ''https://maps.googleapis.com/maps/api/place/findplacefromtext/json'' zeroPlaceSearch params
   \<and> PlaceNearby env params =
     outboundCall (Do env) (UnmarshalNearbySearch env)
       ''https://maps.googleapis.com/maps/api/place/nearbysearch/json'' zeroNearbySearch params"
  using GetGeocode_outboundCall FindPlace_outboundCall PlaceNearby_outboundCall by simp

theorem three_lookups_one_control_flow_witness:
  "GetGeocode (sampleEnv (answers 500 ''oops'')) sampleParams =
     ((zeroGeocode, Some (ErrorsNew ''Status not OK'')),
      [EvDo (sampleSent\<lparr>URL := (URL sampleSent)\<lparr>Path := ''/maps/api/geocode/json''\<rparr>\<rparr>)])
   \<and> FindPlace (sampleEnv (answers 500 ''oops'')) sampleParams =
     ((zeroPlaceSearch, Some (ErrorsNew ''Status not OK'')),
      [EvDo (sampleSent\<lparr>URL := (URL sampleSent)\<lparr>Path :=
         ''/maps/api/place/findplacefromtext/json''\<rparr>\<rparr>)])
   \<and> PlaceNearby (sampleEnv (answers 500 ''oops'')) sampleParams =
     ((zeroNearbySearch, Some (ErrorsNew ''Status not OK'')), [EvDo sampleSent])"
proof -
  have geocode: "outboundCall (Do (sampleEnv (answers 500 ''oops'')))
      (UnmarshalGeocode (sampleEnv (answers 500 ''oops'')))
      ''https://maps.googleapis.com/maps/api/geocode/json'' zeroGeocode sampleParams =
     ((zeroGeocode, Some (ErrorsNew ''Status not OK'')),
      [EvDo (sampleSent\<lparr>URL := (URL sampleSent)\<lparr>Path := ''/maps/api/geocode/json''\<rparr>\<rparr>)])"
    by code_simp
  have findplace: "outboundCall (Do (sampleEnv (answers 500 ''oops'')))
      (UnmarshalPlaceSearch (sampleEnv (answers 500 ''oops'')))
      ''https://maps.googleapis.com/maps/api/place/findplacefromtext/json'' zeroPlaceSearch
      sampleParams =
     ((zeroPlaceSearch, Some (ErrorsNew ''Status not OK'')),
      [EvDo (sampleSent\<lparr>URL := (URL sampleSent)\<lparr>Path :=
         ''/maps/api/place/findplacefromtext/json''\<rparr>\<rparr>)])"
    by code_simp
  have nearby: "outboundCall (Do (sampleEnv (answers 500 ''oops'')))
      (UnmarshalNearbySearch (sampleEnv (answers 500 ''oops'')))
      ''https://maps.googleapis.com/maps/api/place/nearbysearch/json'' zeroNearbySearch
      sampleParams =
     ((zeroNearbySearch, Some (ErrorsNew ''Status not OK'')), [EvDo sampleSent])"
    by code_simp
  show ?thesis
    using three_lookups_one_control_flow [of "sampleEnv (answers 500 ''oops'')" sampleParams]
    by (simp only: geocode findplace nearby)
qed

subsection \<open>Outcomes of the outbound query client\<close>

text \<open>
  Claim C2. Each of the three lookups sends one request and does not send it again. It returns
  no error exactly when the upstream answered with status 200, the body was read to its end
  and the decoder accepted the bytes, and it then returns what the decoder made of them. On any
  other status the error is "Status not OK", the same for every status and every body, and
  the returned value is the zero value. A transport error, a read error and a decode error
  are each returned as the library call reported them.
\<close>

theorem outbound_outcomes:
  "\<exists>req rest. eventsOf v env params = EvDo req # rest \<and> sent rest = [] \<and>
     (errorOf v env params = None \<longleftrightarrow>
        (\<exists>resp contents. Do env req = Inr resp \<and> resp_StatusCode resp = 200
           \<and> ReadAll (resp_Body resp) = (contents, None) \<and> decodeError v env contents = None)) \<and>
     (\<forall>resp contents. Do env req = Inr resp \<and> resp_StatusCode resp = 200
           \<and> ReadAll (resp_Body resp) = (contents, None) \<longrightarrow>
         returnsDecoded v env params contents
         \<and> errorOf v env params = decodeError v env contents) \<and>
     (\<forall>resp. Do env req = Inr resp \<and> resp_StatusCode resp \<noteq> 200 \<longrightarrow>
         errorOf v env params = Some (ErrorsNew ''Status not OK'') \<and> returnsZero v env params) \<and>
     (\<forall>err. Do env req = Inl err \<longrightarrow>
         errorOf v env params = Some err \<and> returnsZero v env params) \<and>
     (\<forall>resp contents err. Do env req = Inr resp \<and> resp_StatusCode resp = 200
           \<and> ReadAll (resp_Body resp) = (contents, Some err) \<longrightarrow>
         errorOf v env params = Some err \<and> returnsZero v env params)"
proof -
  obtain built where b: "NewRequest ''GET'' (endpoint v) = Inr built"
    using NewRequest_endpoint by blast
  show ?thesis
  proof (cases v)
    case Geocode
    show ?thesis
      unfolding Geocode errorOf.simps eventsOf.simps returnsZero.simps returnsDecoded.simps
        decodeError.simps GetGeocode_outboundCall outboundCall_built [OF b [unfolded Geocode]]
      by (auto split: sum.splits prod.splits option.splits if_splits)
  next
    case FindPlaceFromText
    show ?thesis
      unfolding FindPlaceFromText errorOf.simps eventsOf.simps returnsZero.simps
        returnsDecoded.simps decodeError.simps FindPlace_outboundCall
        outboundCall_built [OF b [unfolded FindPlaceFromText]]
      by (auto split: sum.splits prod.splits option.splits if_splits)
  next
    case NearbySearch
    show ?thesis
      unfolding NearbySearch errorOf.simps eventsOf.simps returnsZero.simps returnsDecoded.simps
        decodeError.simps PlaceNearby_outboundCall
        outboundCall_built [OF b [unfolded NearbySearch]]
      by (auto split: sum.splits prod.splits option.splits if_splits)
  qed
qed

theorem outbound_outcomes_witness:
  "errorOf NearbySearch (sampleEnv (answers 200 ''{\"status\":\"OK\"}'')) sampleParams = None
   \<and> returnsDecoded NearbySearch (sampleEnv (answers 200 ''{\"status\":\"OK\"}'')) sampleParams
        ''{\"status\":\"OK\"}''
   \<and> errorOf NearbySearch (sampleEnv (answers 500 ''oops'')) sampleParams
        = Some (ErrorsNew ''Status not OK'')
   \<and> errorOf FindPlaceFromText (sampleEnv unreachable) sampleParams
        = Some (TransportError ''dial tcp: i/o timeout'')
   \<and> errorOf Geocode (sampleEnv truncated) sampleParams = Some (ReadError ''unexpected EOF'')
   \<and> errorOf NearbySearch (sampleEnv (answers 200 ''<html>'')) sampleParams
        = Some (DecodeError ''invalid character'')"
proof -
  have sent1: "eventsOf NearbySearch (sampleEnv (answers 200 ''{\"status\":\"OK\"}'')) sampleParams
      = [EvDo sampleSent, EvReadAll, EvClose]"
    by code_simp
  have do1: "Do (sampleEnv (answers 200 ''{\"status\":\"OK\"}'')) sampleSent
      = Inr \<lparr>resp_StatusCode = 200, resp_Body = (''{\"status\":\"OK\"}'', None)\<rparr>"
    by (simp add: sampleEnv_def answers_def)
  have dec1: "decodeError NearbySearch (sampleEnv (answers 200 ''{\"status\":\"OK\"}''))
      ''{\"status\":\"OK\"}'' = None"
    by (simp add: sampleEnv_def)
  have c1: "errorOf NearbySearch (sampleEnv (answers 200 ''{\"status\":\"OK\"}'')) sampleParams = None
   \<and> returnsDecoded NearbySearch (sampleEnv (answers 200 ''{\"status\":\"OK\"}'')) sampleParams
        ''{\"status\":\"OK\"}''"
    using outbound_outcomes
      [of NearbySearch "sampleEnv (answers 200 ''{\"status\":\"OK\"}'')" sampleParams] do1 dec1
    unfolding sent1 by (auto simp: ReadAll_def)
  have sent2: "eventsOf NearbySearch (sampleEnv (answers 500 ''oops'')) sampleParams
      = [EvDo sampleSent]"
    by code_simp
  have do2: "Do (sampleEnv (answers 500 ''oops'')) sampleSent
      = Inr \<lparr>resp_StatusCode = 500, resp_Body = (''oops'', None)\<rparr>"
    by (simp add: sampleEnv_def answers_def)
  have c2: "errorOf NearbySearch (sampleEnv (answers 500 ''oops'')) sampleParams
        = Some (ErrorsNew ''Status not OK'')"
    using outbound_outcomes [of NearbySearch "sampleEnv (answers 500 ''oops'')" sampleParams] do2
    unfolding sent2 by auto
  have sent3: "eventsOf FindPlaceFromText (sampleEnv unreachable) sampleParams
      = [EvDo (sampleSent\<lparr>URL := (URL sampleSent)\<lparr>Path :=
           ''/maps/api/place/findplacefromtext/json''\<rparr>\<rparr>)]"
    by code_simp
  have do3: "Do (sampleEnv unreachable) r = Inl (TransportError ''dial tcp: i/o timeout'')" for r
    by (simp add: sampleEnv_def unreachable_def)
  have c3: "errorOf FindPlaceFromText (sampleEnv unreachable) sampleParams
        = Some (TransportError ''dial tcp: i/o timeout'')"
    using outbound_outcomes [of FindPlaceFromText "sampleEnv unreachable" sampleParams] do3
    unfolding sent3 by auto
  have sent4: "eventsOf Geocode (sampleEnv truncated) sampleParams
      = [EvDo (sampleSent\<lparr>URL := (URL sampleSent)\<lparr>Path := ''/maps/api/geocode/json''\<rparr>\<rparr>),
         EvReadAll, EvClose]"
    by code_simp
  have do4: "Do (sampleEnv truncated) r
      = Inr \<lparr>resp_StatusCode = 200, resp_Body = (''{'', Some (ReadError ''unexpected EOF''))\<rparr>"
    for r
    by (simp add: sampleEnv_def truncated_def)
  have c4: "errorOf Geocode (sampleEnv truncated) sampleParams
        = Some (ReadError ''unexpected EOF'')"
    using outbound_outcomes [of Geocode "sampleEnv truncated" sampleParams] do4
    unfolding sent4 by (auto simp: ReadAll_def)
  have sent5: "eventsOf NearbySearch (sampleEnv (answers 200 ''<html>'')) sampleParams
      = [EvDo sampleSent, EvReadAll, EvClose]"
    by code_simp
  have do5: "Do (sampleEnv (answers 200 ''<html>'')) sampleSent
      = Inr \<lparr>resp_StatusCode = 200, resp_Body = (''<html>'', None)\<rparr>"
    by (simp add: sampleEnv_def answers_def)
  have dec5: "decodeError NearbySearch (sampleEnv (answers 200 ''<html>'')) ''<html>''
      = Some (DecodeError ''invalid character'')"
    by (simp add: sampleEnv_def)
  have c5: "errorOf NearbySearch (sampleEnv (answers 200 ''<html>'')) sampleParams
        = Some (DecodeError ''invalid character'')"
    using outbound_outcomes [of NearbySearch "sampleEnv (answers 200 ''<html>'')" sampleParams]
      do5 dec5
    unfolding sent5 by (auto simp: ReadAll_def)
  show ?thesis using c1 c2 c3 c4 c5 by blast
qed

subsection \<open>The response envelope\<close>

lemma Handler_unfold:
  "fst (Handler env request) =
    (case snd (fst (PlaceNearby env (geoParams request))) of
       Some err \<Rightarrow>
         (\<lparr>StatusCode = 400, Headers = [], MultiValueHeaders = [], Body = ''Error'',
            IsBase64Encoded = False\<rparr>, Some err)
     | None \<Rightarrow>
         (\<lparr>StatusCode = 200, Headers = [], MultiValueHeaders = [],
            Body = fst (Marshal env (fst (fst (PlaceNearby env (geoParams request))))),
            IsBase64Encoded = False\<rparr>, None))"
  "snd (Handler env request) = snd (PlaceNearby env (geoParams request))"
  by (cases "PlaceNearby env (geoParams request)";
      simp add: Handler_def split: prod.split option.split)+

text \<open>
  Claim C3. Whenever the nearby-search call returns an error, whichever of its error branches
  produced it, the handler returns the envelope with status code 400 and body "Error" (the
  same envelope for every error) together with that same error for the invoking runtime.
\<close>

theorem Handler_failure:
  "snd (fst (PlaceNearby env (geoParams request))) = Some err \<Longrightarrow>
   fst (Handler env request) =
     (\<lparr>StatusCode = 400, Headers = [], MultiValueHeaders = [], Body = ''Error'',
        IsBase64Encoded = False\<rparr>, Some err)"
  by (simp add: Handler_unfold)

theorem Handler_failure_witness:
  "fst (Handler (sampleEnv (answers 500 ''oops'')) sampleRequest) =
     (\<lparr>StatusCode = 400, Headers = [], MultiValueHeaders = [], Body = ''Error'',
        IsBase64Encoded = False\<rparr>, Some (ErrorsNew ''Status not OK''))
   \<and> fst (Handler (sampleEnv unreachable) sampleRequest) =
     (\<lparr>StatusCode = 400, Headers = [], MultiValueHeaders = [], Body = ''Error'',
        IsBase64Encoded = False\<rparr>, Some (TransportError ''dial tcp: i/o timeout''))
   \<and> fst (Handler (sampleEnv truncated) sampleRequest) =
     (\<lparr>StatusCode = 400, Headers = [], MultiValueHeaders = [], Body = ''Error'',
        IsBase64Encoded = False\<rparr>, Some (ReadError ''unexpected EOF''))
   \<and> fst (Handler (sampleEnv (answers 200 ''<html>'')) sampleRequest) =
     (\<lparr>StatusCode = 400, Headers = [], MultiValueHeaders = [], Body = ''Error'',
        IsBase64Encoded = False\<rparr>, Some (DecodeError ''invalid character''))"
proof -
  have status:
    "snd (fst (PlaceNearby (sampleEnv (answers 500 ''oops'')) (geoParams sampleRequest)))
      = Some (ErrorsNew ''Status not OK'')"
    by code_simp
  have transport: "snd (fst (PlaceNearby (sampleEnv unreachable) (geoParams sampleRequest)))
      = Some (TransportError ''dial tcp: i/o timeout'')"
    by code_simp
  have reading: "snd (fst (PlaceNearby (sampleEnv truncated) (geoParams sampleRequest)))
      = Some (ReadError ''unexpected EOF'')"
    by code_simp
  have decoding:
    "snd (fst (PlaceNearby (sampleEnv (answers 200 ''<html>'')) (geoParams sampleRequest)))
      = Some (DecodeError ''invalid character'')"
    by code_simp
  show ?thesis
    using Handler_failure [OF status] Handler_failure [OF transport] Handler_failure [OF reading]
      Handler_failure [OF decoding]
    by simp
qed

text \<open>
  Claim C4. Whenever the nearby-search call returns no error, the handler returns the envelope
  with status code 200 whose body is the bytes that json.Marshal gives for the decoded
  structure, and it returns no error.
\<close>

theorem Handler_success:
  "snd (fst (PlaceNearby env (geoParams request))) = None \<Longrightarrow>
   fst (Handler env request) =
     (\<lparr>StatusCode = 200, Headers = [], MultiValueHeaders = [],
        Body = fst (Marshal env (fst (fst (PlaceNearby env (geoParams request))))),
        IsBase64Encoded = False\<rparr>, None)"
  by (simp add: Handler_unfold)

theorem Handler_success_witness:
  "fst (Handler (sampleEnv (answers 200 ''{\"status\":\"OK\"}'')) sampleRequest) =
     (\<lparr>StatusCode = 200, Headers = [], MultiValueHeaders = [],
        Body = ''{\"html_attributions\":null,\"results\":null,\"status\":\"OK\"}'',
        IsBase64Encoded = False\<rparr>, None)"
proof -
  have ok: "snd (fst (PlaceNearby (sampleEnv (answers 200 ''{\"status\":\"OK\"}''))
      (geoParams sampleRequest))) = None"
    by code_simp
  have body: "fst (Marshal (sampleEnv (answers 200 ''{\"status\":\"OK\"}''))
       (fst (fst (PlaceNearby (sampleEnv (answers 200 ''{\"status\":\"OK\"}''))
          (geoParams sampleRequest)))))
     = ''{\"html_attributions\":null,\"results\":null,\"status\":\"OK\"}''"
    by code_simp
  show ?thesis
    using Handler_success [OF ok] by (simp only: body)
qed




text \<open>
  The claim as it was stated has the body non-empty for every request. With an encoder that
  returns no bytes the handler still answers with status code 200 and no error, and the body
  is the empty string.
\<close>

theorem Handler_empty_body_counterexample:
  "StatusCode (fst (fst (Handler sampleEnvFailingEncoder sampleRequest))) = 200
   \<and> snd (fst (Handler sampleEnvFailingEncoder sampleRequest)) = None
   \<and> Body (fst (fst (Handler sampleEnvFailingEncoder sampleRequest))) = ''''"
  by code_simp

text \<open>
  Claim C9. The handler does not validate its required parameters. When "location" or "radius"
  is absent from the query string, the outbound mapping still has that key, bound to the empty
  string; and for every inbound request whatever, the first thing the handler does to the
  outside is to send the nearby-search request carrying its parameter mapping.
\<close>

theorem Handler_dispatches:
  "(map_of (QueryStringParameters request) ''location'' = None \<longrightarrow>
      map_of (geoParams request) ''location'' = Some '''')
   \<and> (map_of (QueryStringParameters request) ''radius'' = None \<longrightarrow>
      map_of (geoParams request) ''radius'' = Some '''')
   \<and> (\<exists>built rest. NewRequest ''GET'' (endpoint NearbySearch) = Inr built
        \<and> snd (Handler env request) = EvDo (attachParams (geoParams request) built) # rest)"
proof -
  obtain built where b: "NewRequest ''GET'' (endpoint NearbySearch) = Inr built"
    using NewRequest_endpoint by blast
  have "\<exists>rest. snd (Handler env request) = EvDo (attachParams (geoParams request) built) # rest"
    unfolding Handler_unfold PlaceNearby_outboundCall outboundCall_built [OF b]
    by (auto split: sum.split prod.split option.split)
  moreover have "map_of (QueryStringParameters request) ''location'' = None \<longrightarrow>
      map_of (geoParams request) ''location'' = Some ''''"
    by (simp add: geoParams_def Let_def map_of_assign index_def)
  moreover have "map_of (QueryStringParameters request) ''radius'' = None \<longrightarrow>
      map_of (geoParams request) ''radius'' = Some ''''"
    by (simp add: geoParams_def Let_def map_of_assign index_def)
  ultimately show ?thesis using b by blast
qed

theorem Handler_dispatches_witness:
  "map_of (geoParams \<lparr>QueryStringParameters = [(''name'', ''coffee'')]\<rparr>) ''location'' = Some ''''
   \<and> map_of (geoParams \<lparr>QueryStringParameters = [(''name'', ''coffee'')]\<rparr>) ''radius'' = Some ''''
   \<and> sent (snd (Handler (sampleEnv (answers 200 ''{\"status\":\"OK\"}''))
        \<lparr>QueryStringParameters = [(''name'', ''coffee'')]\<rparr>))
      = [sampleSent\<lparr>URL := (URL sampleSent)\<lparr>RawQuery :=
           ''key=API+KEY+HERE&location=&name=coffee&radius=''\<rparr>\<rparr>]"
proof -
  have absent:
    "map_of (QueryStringParameters \<lparr>QueryStringParameters = [(''name'', ''coffee'')]\<rparr>)
      ''location'' = None"
    "map_of (QueryStringParameters \<lparr>QueryStringParameters = [(''name'', ''coffee'')]\<rparr>)
      ''radius'' = None"
    by simp_all
  have events: "sent (snd (Handler (sampleEnv (answers 200 ''{\"status\":\"OK\"}''))
        \<lparr>QueryStringParameters = [(''name'', ''coffee'')]\<rparr>))
      = [sampleSent\<lparr>URL := (URL sampleSent)\<lparr>RawQuery :=
           ''key=API+KEY+HERE&location=&name=coffee&radius=''\<rparr>\<rparr>]"
    by code_simp
  show ?thesis
    using Handler_dispatches [of "\<lparr>QueryStringParameters = [(''name'', ''coffee'')]\<rparr>"
        "sampleEnv (answers 200 ''{\"status\":\"OK\"}'')"] absent events
    by blast
qed

subsection \<open>Network calls and the response body\<close>

text \<open>Every call of a lookup sends exactly one request.\<close>

lemma one_request_per_call: "length (sent (eventsOf v env params)) = 1"
proof -
  obtain built where b: "NewRequest ''GET'' (endpoint v) = Inr built"
    using NewRequest_endpoint by blast
  show ?thesis
  proof (cases v)
    case Geocode
    show ?thesis
      unfolding Geocode eventsOf.simps GetGeocode_outboundCall
        outboundCall_built [OF b [unfolded Geocode]]
      by (auto split: sum.splits prod.splits option.splits)
  next
    case FindPlaceFromText
    show ?thesis
      unfolding FindPlaceFromText eventsOf.simps FindPlace_outboundCall
        outboundCall_built [OF b [unfolded FindPlaceFromText]]
      by (auto split: sum.splits prod.splits option.splits)
  next
    case NearbySearch
    show ?thesis
      unfolding NearbySearch eventsOf.simps PlaceNearby_outboundCall
        outboundCall_built [OF b [unfolded NearbySearch]]
      by (auto split: sum.splits prod.splits option.splits)
  qed
qed

text \<open>
  The body is closed, once and as the last event, exactly on the paths that reach the
  \<^verbatim>\<open>defer\<close> statement: those on which the upstream answered with status 200. On an answer
  with any other status the function has returned before.
\<close>

lemma body_closed_iff_status_OK:
  assumes "sent (eventsOf v env params) = [req]"
  shows "closes (eventsOf v env params) =
       (case Do env req of
          Inl err \<Rightarrow> 0
        | Inr resp \<Rightarrow> if resp_StatusCode resp = 200 then 1 else 0) \<and>
     (closes (eventsOf v env params) = 1 \<longrightarrow> last (eventsOf v env params) = EvClose)"
proof -
  obtain built where b: "NewRequest ''GET'' (endpoint v) = Inr built"
    using NewRequest_endpoint by blast
  show ?thesis
  proof (cases v)
    case Geocode
    show ?thesis
      using assms unfolding Geocode eventsOf.simps GetGeocode_outboundCall
        outboundCall_built [OF b [unfolded Geocode]]
      by (auto simp: closes_def split: sum.splits prod.splits option.splits)
  next
    case FindPlaceFromText
    show ?thesis
      using assms unfolding FindPlaceFromText eventsOf.simps FindPlace_outboundCall
        outboundCall_built [OF b [unfolded FindPlaceFromText]]
      by (auto simp: closes_def split: sum.splits prod.splits option.splits)
  next
    case NearbySearch
    show ?thesis
      using assms unfolding NearbySearch eventsOf.simps PlaceNearby_outboundCall
        outboundCall_built [OF b [unfolded NearbySearch]]
      by (auto simp: closes_def split: sum.splits prod.splits option.splits)
  qed
qed

text \<open>
  Claim C6. The claim asks that the response body be closed before the function returns on
  every path that has a response, the path of a status other than 200 among them. Run against
  an upstream that answers with status 500, PlaceNearby sends its one request, returns
  "Status not OK", and closes nothing: the \<^verbatim>\<open>return\<close> of line 226 comes before the
  \<^verbatim>\<open>defer resp.Body.Close()\<close> of line 229.
\<close>

theorem PlaceNearby_status_500_body_not_closed:
  "Do (sampleEnv (answers 500 ''oops'')) sampleSent
     = Inr \<lparr>resp_StatusCode = 500, resp_Body = (''oops'', None)\<rparr>
   \<and> PlaceNearby (sampleEnv (answers 500 ''oops'')) sampleParams
     = ((zeroNearbySearch, Some (ErrorsNew ''Status not OK'')), [EvDo sampleSent])
   \<and> closes (snd (PlaceNearby (sampleEnv (answers 500 ''oops'')) sampleParams)) = 0"
  by code_simp

subsection \<open>The request that is sent\<close>

declare parseQuery.simps [simp del]

lemma byte_less_256: "byte c < 256"
proof -
  have "of_char c mod 256 = (of_char c :: nat)" by simp
  then show ?thesis unfolding byte_def by (metis mod_less_divisor zero_less_numeral)
qed

lemma upperhex_table:
  "list_all (\<lambda>n. ishex (upperhex n) \<and> unhex (upperhex n) = n \<and> upperhex n \<noteq> CHR ''&''
      \<and> upperhex n \<noteq> CHR ''='' \<and> upperhex n \<noteq> CHR '';'') [0..<16]"
  by code_simp

lemma upperhex_props:
  assumes "n < 16"
  shows "ishex (upperhex n)" and "unhex (upperhex n) = n"
    and "upperhex n \<noteq> CHR ''&''" and "upperhex n \<noteq> CHR ''=''" and "upperhex n \<noteq> CHR '';''"
proof -
  from assms have "n \<in> set [0..<16]" by simp
  with upperhex_table
  show "ishex (upperhex n)" and "unhex (upperhex n) = n"
    and "upperhex n \<noteq> CHR ''&''" and "upperhex n \<noteq> CHR ''=''" and "upperhex n \<noteq> CHR '';''"
    unfolding list_all_iff by blast+
qed

lemma escapeByte_separators:
  "CHR ''&'' \<notin> set (escapeByte c)" "CHR ''='' \<notin> set (escapeByte c)" "CHR '';'' \<notin> set (escapeByte c)"
proof -
  have hi: "byte c div 16 < 16" and lo: "byte c mod 16 < 16"
    using byte_less_256 [of c] by auto
  show "CHR ''&'' \<notin> set (escapeByte c)" "CHR ''='' \<notin> set (escapeByte c)" "CHR '';'' \<notin> set (escapeByte c)"
    using upperhex_props(3-5) [OF hi] upperhex_props(3-5) [OF lo]
    by (auto simp: escapeByte_def shouldEscape_def isLetter_def isDigit_def byte_def)
qed

lemma escapeByte_nonempty: "escapeByte c \<noteq> []"
  by (simp add: escapeByte_def)

lemma QueryUnescape_escapeByte:
  "QueryUnescape (escapeByte c @ s) =
     (case QueryUnescape s of Inl err \<Rightarrow> Inl err | Inr t \<Rightarrow> Inr (c # t))"
proof -
  have hi: "byte c div 16 < 16" and lo: "byte c mod 16 < 16"
    using byte_less_256 [of c] by auto
  have joined: "char_of (byte c div 16 * 16 + byte c mod 16) = c"
    by (simp add: byte_def)
  consider (space) "c = CHR '' ''" | (escaped) "c \<noteq> CHR '' ''" "shouldEscape c"
    | (plain) "c \<noteq> CHR '' ''" "\<not> shouldEscape c"
    by blast
  then show ?thesis
  proof cases
    case space
    then show ?thesis by (simp add: escapeByte_def split: sum.split)
  next
    case escaped
    then show ?thesis
      using upperhex_props(1,2) [OF hi] upperhex_props(1,2) [OF lo] joined
      by (simp add: escapeByte_def split: sum.split)
  next
    case plain
    then have "c \<noteq> CHR ''%''" "c \<noteq> CHR ''+''"
      by (auto simp: shouldEscape_def isLetter_def isDigit_def byte_def)
    with plain show ?thesis by (simp add: escapeByte_def split: sum.split)
  qed
qed

lemma QueryUnescape_QueryEscape: "QueryUnescape (QueryEscape s) = Inr s"
proof (induction s)
  case Nil
  show ?case by (simp add: QueryEscape_def)
next
  case (Cons c s)
  have "QueryEscape (c # s) = escapeByte c @ QueryEscape s"
    by (simp add: QueryEscape_def)
  with Cons show ?case by (simp add: QueryUnescape_escapeByte)
qed

lemma QueryEscape_separators:
  "CHR ''&'' \<notin> set (QueryEscape s)" "CHR ''='' \<notin> set (QueryEscape s)" "CHR '';'' \<notin> set (QueryEscape s)"
  by (auto simp: QueryEscape_def escapeByte_separators)

lemma queryString_Cons:
  "queryString ((key, val) # ps) =
     QueryEscape key @ ''='' @ QueryEscape val @ (if ps = [] then '''' else ''&'' @ queryString ps)"
  by (cases ps) auto

lemma queryString_empty_iff: "queryString ps = '''' \<longleftrightarrow> ps = []"
  by (cases ps rule: queryString.cases) auto

lemma foldl_writePair:
  "foldl (\<lambda>buf (key, val). writePair (QueryEscape key) buf val) buf ps =
     (if ps = [] then buf else if buf = '''' then queryString ps else buf @ ''&'' @ queryString ps)"
proof (induction ps arbitrary: buf)
  case Nil
  show ?case by simp
next
  case (Cons p ps)
  obtain key val where p: "p = (key, val)" by (cases p)
  show ?case
    unfolding p foldl_Cons Cons.IH
    by (simp add: writePair_def queryString_Cons)
qed

lemma map_of_singletons: "map_of (singletons ps) key = map_option (\<lambda>val. [val]) (map_of ps key)"
  by (induction ps) (auto simp: singletons_def)

lemma index_singletons:
  "index (singletons ps) key = (case map_of ps key of None \<Rightarrow> [] | Some val \<Rightarrow> [val])"
  by (simp add: index_def map_of_singletons split: option.split)

lemma index_singletons_member:
  assumes "key \<in> fst ` set ps"
  shows "index (singletons ps) key = [index ps key]"
proof -
  from assms have "map_of ps key \<noteq> None" by (simp add: map_of_eq_None_iff)
  then obtain val where "map_of ps key = Some val" by blast
  then show ?thesis unfolding index_singletons by (simp add: index_def)
qed

lemma singletons_empty_iff: "singletons ps = [] \<longleftrightarrow> ps = []"
  by (simp add: singletons_def)

lemma Encode_singletons: "Encode (singletons ps) = queryString (entries ps)"
proof (cases "ps = []")
  case True
  then show ?thesis by (simp add: Encode_def singletons_def entries_def)
next
  case False
  have keys: "map fst (singletons ps) = map fst ps"
    by (simp add: singletons_def case_prod_unfold)
  have "foldl (\<lambda>buf k. foldl (writePair (QueryEscape k)) buf (index (singletons ps) k)) buf ks
      = foldl (\<lambda>buf (key, val). writePair (QueryEscape key) buf val) buf
          (map (\<lambda>key. (key, index ps key)) ks)"
    if "set ks \<subseteq> fst ` set ps" for ks buf
    using that by (induction ks arbitrary: buf) (simp_all add: index_singletons_member)
  from this [of "sort (map fst ps)" "''''"] False show ?thesis
    by (simp add: Encode_def keys entries_def foldl_writePair singletons_empty_iff)
qed

lemma cut_found: "sep \<notin> set a \<Longrightarrow> cut sep (a @ sep # b) = (a, b, True)"
  by (induction a) (auto simp: cut_def)

lemma cut_absent: "sep \<notin> set a \<Longrightarrow> cut sep a = (a, '''', False)"
  by (induction a) (auto simp: cut_def)

lemma pair_cuts:
  "cut (CHR ''&'') (QueryEscape key @ CHR ''='' # QueryEscape val)
     = (QueryEscape key @ CHR ''='' # QueryEscape val, '''', False)"
  "cut (CHR ''&'') (QueryEscape key @ CHR ''='' # QueryEscape val @ CHR ''&'' # rest)
     = (QueryEscape key @ CHR ''='' # QueryEscape val, rest, True)"
  "cut (CHR ''='') (QueryEscape key @ CHR ''='' # QueryEscape val)
     = (QueryEscape key, QueryEscape val, True)"
  using cut_absent [of "CHR ''&''" "QueryEscape key @ CHR ''='' # QueryEscape val"]
    cut_found [of "CHR ''&''" "QueryEscape key @ CHR ''='' # QueryEscape val" rest]
    cut_found [of "CHR ''=''" "QueryEscape key" "QueryEscape val"]
  by (simp_all add: QueryEscape_separators)

lemma parseQuery_last:
  "parseQuery m (QueryEscape key @ ''='' @ QueryEscape val) = Add m key val"
  by (subst parseQuery.simps)
     (simp add: pair_cuts QueryEscape_separators QueryUnescape_QueryEscape parseQuery.simps [of _ "[]"])

lemma parseQuery_more:
  "parseQuery m (QueryEscape key @ ''='' @ QueryEscape val @ ''&'' @ rest)
     = parseQuery (Add m key val) rest"
  by (subst parseQuery.simps)
     (simp add: pair_cuts QueryEscape_separators QueryUnescape_QueryEscape)

lemma parseQuery_queryString:
  "parseQuery m (queryString ps) = foldl (\<lambda>q (key, val). Add q key val) m ps"
proof (induction ps arbitrary: m rule: queryString.induct)
  case 1
  show ?case by (simp add: parseQuery.simps)
next
  case (2 key val)
  show ?case using parseQuery_last by simp
next
  case (3 key val p ps)
  show ?case using parseQuery_more "3.IH" by simp
qed

lemma assign_fresh: "key \<notin> fst ` set m \<Longrightarrow> assign m key v = m @ [(key, v)]"
  by (induction m) (auto simp: assign_def)

lemma index_fresh: "key \<notin> fst ` set m \<Longrightarrow> index m key = []"
  by (simp add: index_def map_of_eq_None_iff [THEN iffD2])

lemma foldl_Add_fresh:
  "distinct (map fst ps) \<Longrightarrow> fst ` set ps \<inter> fst ` set q = {} \<Longrightarrow>
   foldl (\<lambda>q (key, val). Add q key val) q ps = q @ singletons ps"
proof (induction ps arbitrary: q)
  case Nil
  show ?case by (simp add: singletons_def)
next
  case (Cons p ps)
  obtain key val where p: "p = (key, val)" by (cases p)
  from Cons.prems have fresh: "key \<notin> fst ` set q" by (auto simp: p)
  have step: "Add q key val = q @ [(key, [val])]"
    by (simp add: Add_def assign_fresh [OF fresh] index_fresh [OF fresh])
  from Cons.prems have "distinct (map fst ps)"
    and "fst ` set ps \<inter> fst ` set (q @ [(key, [val])]) = {}"
    by (auto simp: p)
  from Cons.IH [OF this] show ?case
    by (simp add: p step singletons_def)
qed

lemma foldl_Add_singletons:
  "wellformed ps \<Longrightarrow> foldl (\<lambda>q (key, val). Add q key val) [] ps = singletons ps"
  using foldl_Add_fresh [of ps "[]"] by (simp add: wellformed_def)

lemma entries_keys: "map fst (entries ps) = sort (map fst ps)"
  by (simp add: entries_def comp_def)

lemma wellformed_entries: "wellformed ps \<Longrightarrow> wellformed (entries ps)"
  by (simp add: wellformed_def entries_keys)

lemma map_of_entries: "map_of (entries ps) key = map_of ps key"
proof (cases "key \<in> fst ` set ps")
  case True
  then have "map_of ps key \<noteq> None" by (simp add: map_of_eq_None_iff)
  then obtain val where val: "map_of ps key = Some val" by blast
  have "map_of (map (\<lambda>k. (k, index ps k)) ks) key = (if key \<in> set ks then Some (index ps key) else None)"
    for ks
    by (induction ks) auto
  from this [of "sort (map fst ps)"] True val show ?thesis
    by (simp add: entries_def index_def)
next
  case False
  then have "map_of ps key = None" by (simp add: map_of_eq_None_iff)
  moreover from False have "key \<notin> fst ` set (entries ps)"
    by (metis entries_keys list.set_map set_sort)
  then have "map_of (entries ps) key = None" by (simp add: map_of_eq_None_iff)
  ultimately show ?thesis by simp
qed

lemma Query_attachParams:
  assumes "RawQuery (URL built) = ''''" and "wellformed params"
  shows "RawQuery (URL (attachParams params built)) = queryString (entries params)"
    and "Query (URL (attachParams params built)) = singletons (entries params)"
proof -
  have "Query (URL built) = []"
    using assms(1) by (simp add: Query_def parseQuery.simps)
  then show raw: "RawQuery (URL (attachParams params built)) = queryString (entries params)"
    using assms(2) by (simp add: attachParams_def foldl_Add_singletons Encode_singletons)
  show "Query (URL (attachParams params built)) = singletons (entries params)"
    unfolding Query_def raw parseQuery_queryString
    using foldl_Add_singletons [OF wellformed_entries [OF assms(2)]] .
qed

lemma eventsOf_head:
  assumes "NewRequest ''GET'' (endpoint v) = Inr built"
  shows "\<exists>rest. eventsOf v env params = EvDo (attachParams params built) # rest \<and> sent rest = []"
proof (cases v)
  case Geocode
  show ?thesis
    unfolding Geocode eventsOf.simps GetGeocode_outboundCall
      outboundCall_built [OF assms [unfolded Geocode]]
    by (auto split: sum.splits prod.splits option.splits)
next
  case FindPlaceFromText
  show ?thesis
    unfolding FindPlaceFromText eventsOf.simps FindPlace_outboundCall
      outboundCall_built [OF assms [unfolded FindPlaceFromText]]
    by (auto split: sum.splits prod.splits option.splits)
next
  case NearbySearch
  show ?thesis
    unfolding NearbySearch eventsOf.simps PlaceNearby_outboundCall
      outboundCall_built [OF assms [unfolded NearbySearch]]
    by (auto split: sum.splits prod.splits option.splits)
qed

lemma assign_twice: "assign (assign m key v1) key v2 = assign m key v2"
  by (induction m) (auto simp: assign_def)

lemma entries_cong:
  assumes "wellformed ps" and "wellformed ps'" and "map_of ps' = map_of ps"
  shows "entries ps' = entries ps"
proof -
  have "set (map fst ps') = set (map fst ps)"
    using assms(3) by (metis dom_map_of_conv_image_fst list.set_map)
  then have "sort (map fst ps') = sort (map fst ps)"
    using assms(1,2)
    by (intro sorted_distinct_set_unique) (simp_all add: wellformed_def)
  moreover have "index ps' key = index ps key" for key
    by (simp add: index_def assms(3))
  ultimately show ?thesis by (simp add: entries_def)
qed

text \<open>
  Claim C5. For every parameter mapping (a Go map: no key twice) and each of the three
  lookups, the request sent is a GET request whose URL, its query aside, is the parsed endpoint
  literal of that lookup. Its query string is the entries of the mapping in key order, each
  written once as key=value; parsed back, it holds for every key of the mapping exactly the
  one value the mapping gives it and nothing for any other key. The request depends on the
  mapping only, not on the order in which the entries are visited, and a key written twice
  into the mapping counts with its last value.
\<close>

theorem outbound_request:
  assumes "wellformed params"
  shows "\<exists>req rest. eventsOf v env params = EvDo req # rest \<and> sent rest = []
     \<and> Method req = ''GET''
     \<and> Parse (endpoint v) = Inr ((URL req)\<lparr>RawQuery := ''''\<rparr>)
     \<and> RawQuery (URL req) = queryString (entries params)
     \<and> wellformed (Query (URL req))
     \<and> (\<forall>key. index (Query (URL req)) key =
           (case map_of params key of None \<Rightarrow> [] | Some val \<Rightarrow> [val]))
     \<and> (\<forall>params'. wellformed params' \<and> map_of params' = map_of params \<longrightarrow>
           sent (eventsOf v env params') = [req])
     \<and> (\<forall>key v1 v2. eventsOf v env (assign (assign params key v1) key v2)
           = eventsOf v env (assign params key v2))"
proof -
  obtain built where b: "NewRequest ''GET'' (endpoint v) = Inr built"
    and m: "Method built = ''GET''" and p: "Parse (endpoint v) = Inr (URL built)"
    and r: "RawQuery (URL built) = ''''"
    using NewRequest_endpoint by blast
  let ?req = "attachParams params built"
  obtain rest where ev: "eventsOf v env params = EvDo ?req # rest" and one: "sent rest = []"
    using eventsOf_head [OF b] by blast
  have get: "Method ?req = ''GET''"
    using m by (simp add: attachParams_def)
  have target: "Parse (endpoint v) = Inr ((URL ?req)\<lparr>RawQuery := ''''\<rparr>)"
    using p r by (simp add: attachParams_def)
  note q = Query_attachParams [OF r assms]
  have wf: "wellformed (Query (URL ?req))"
    using wellformed_entries [OF assms]
    by (simp add: q wellformed_def singletons_def case_prod_unfold comp_def)
  have vals: "index (Query (URL ?req)) key =
      (case map_of params key of None \<Rightarrow> [] | Some val \<Rightarrow> [val])" for key
    by (simp add: q index_singletons map_of_entries)
  have same: "sent (eventsOf v env params') = [?req]"
    if "wellformed params'" "map_of params' = map_of params" for params'
  proof -
    obtain rest' where "eventsOf v env params' = EvDo (attachParams params' built) # rest'"
      and "sent rest' = []"
      using eventsOf_head [OF b] by blast
    moreover have "attachParams params' built = ?req"
      using Query_attachParams(1) [OF r that(1)] q(1) entries_cong [OF assms that]
      by (simp add: attachParams_def)
    ultimately show ?thesis by simp
  qed
  show ?thesis
    using ev one get target q(1) wf vals same by (auto simp: assign_twice)
qed

theorem outbound_request_witness:
  "wellformed sampleParams
   \<and> sent (eventsOf NearbySearch (sampleEnv (answers 200 ''{\"status\":\"OK\"}'')) sampleParams)
       = [sampleSent]
   \<and> Parse (endpoint NearbySearch) = Inr ((URL sampleSent)\<lparr>RawQuery := ''''\<rparr>)
   \<and> queryString (entries sampleParams) = ''key=API+KEY+HERE&location=-6.2%2C106.8&radius=500''
   \<and> index (Query (URL sampleSent)) ''location'' = [''-6.2,106.8'']
   \<and> index (Query (URL sampleSent)) ''name'' = []
   \<and> eventsOf NearbySearch (sampleEnv (answers 200 ''{\"status\":\"OK\"}''))
        (assign (assign sampleParams ''radius'' ''100'') ''radius'' ''500'')
       = [EvDo sampleSent, EvReadAll, EvClose]"
proof -
  let ?env = "sampleEnv (answers 200 ''{\"status\":\"OK\"}'')"
  have wf: "wellformed sampleParams"
    by (simp add: wellformed_def sampleParams_def)
  have ev: "eventsOf NearbySearch ?env sampleParams = [EvDo sampleSent, EvReadAll, EvClose]"
    by code_simp
  have again: "assign sampleParams ''radius'' ''500'' = sampleParams"
    by (simp add: assign_def sampleParams_def)
  have loc: "map_of sampleParams ''location'' = Some ''-6.2,106.8''"
    and name: "map_of sampleParams ''name'' = None"
    by (simp_all add: sampleParams_def)
  have raw: "RawQuery (URL sampleSent) = ''key=API+KEY+HERE&location=-6.2%2C106.8&radius=500''"
    by (simp add: sampleSent_def)
  from outbound_request [OF wf, of NearbySearch ?env]
  obtain req rest where head: "eventsOf NearbySearch ?env sampleParams = EvDo req # rest"
    and target: "Parse (endpoint NearbySearch) = Inr ((URL req)\<lparr>RawQuery := ''''\<rparr>)"
    and query: "RawQuery (URL req) = queryString (entries sampleParams)"
    and vals: "\<forall>key. index (Query (URL req)) key =
           (case map_of sampleParams key of None \<Rightarrow> [] | Some val \<Rightarrow> [val])"
    and twice: "\<forall>key v1 v2. eventsOf NearbySearch ?env (assign (assign sampleParams key v1) key v2)
           = eventsOf NearbySearch ?env (assign sampleParams key v2)"
    by blast
  from head ev have req: "req = sampleSent" by simp
  from vals loc have "index (Query (URL sampleSent)) ''location'' = [''-6.2,106.8'']"
    unfolding req by simp
  moreover from vals name have "index (Query (URL sampleSent)) ''name'' = []"
    unfolding req by simp
  moreover from twice [rule_format, of "''radius''" "''100''" "''500''"]
  have "eventsOf NearbySearch ?env
      (assign (assign sampleParams ''radius'' ''100'') ''radius'' ''500'')
       = [EvDo sampleSent, EvReadAll, EvClose]"
    by (simp only: again ev)
  ultimately show ?thesis
    using wf ev target query raw unfolding req by simp
qed

subsection \<open>The JSON round trip\<close>

lemma keep_simps: "keep None e = e" "keep e None = e" "keep (Some a) e = Some a"
  by (simp_all add: keep_def split: option.split)

lemma firstError_None: "(\<And>x. x \<in> set xs \<Longrightarrow> f x = None) \<Longrightarrow> firstError (map f xs) = None"
  by (induction xs) (simp_all add: firstError_def keep_simps)

lemma isFinite_zero: "isFinite 0"
  by (simp add: isFinite_def)

lemma decFloat_finite: "isFinite cur \<Longrightarrow> isFinite (fst (decFloat d cur))"
  by (simp add: decFloat_def split: document.split option.split)

lemma decObject_unfold:
  "decObject member d cur =
    (case d of
       DObject ms \<Rightarrow>
         foldl (\<lambda>acc p. (fst (member (fst p) (snd p) (fst acc)),
                         keep (snd acc) (snd (member (fst p) (snd p) (fst acc)))))
           (cur, None) ms
     | DNull \<Rightarrow> (cur, None)
     | _ \<Rightarrow> (cur, Some typeError))"
proof -
  have step: "memberStep member =
      (\<lambda>acc p. (fst (member (fst p) (snd p) (fst acc)),
                keep (snd acc) (snd (member (fst p) (snd p) (fst acc)))))"
    by (simp add: fun_eq_iff memberStep_def withError_def)
  show ?thesis unfolding decObject_def step by (rule refl)
qed

lemma decObject_invariant:
  assumes step: "\<And>key v s. P s \<Longrightarrow> P (fst (member key v s))" and start: "P cur"
  shows "P (fst (decObject member d cur))"
proof (cases d)
  case (DObject ms)
  have "P (fst acc) \<Longrightarrow>
      P (fst (foldl (\<lambda>acc p. (fst (member (fst p) (snd p) (fst acc)),
                         keep (snd acc) (snd (member (fst p) (snd p) (fst acc))))) acc ms))" for acc
    by (induction ms arbitrary: acc) (simp_all add: step)
  from this [of "(cur, None)"] start show ?thesis by (simp add: DObject decObject_unfold)
qed (simp_all add: decObject_unfold start)

lemma decLocation_finite:
  "finiteLocation cur \<Longrightarrow> finiteLocation (fst (decLocation lib d cur))"
  unfolding decLocation_def
  by (rule decObject_invariant)
     (auto simp: locationMember_def locationField_def Let_def store_def finiteLocation_def
         decFloat_finite)

lemma decViewport_finite:
  "finiteViewport cur \<Longrightarrow> finiteViewport (fst (decViewport lib d cur))"
  unfolding decViewport_def
  by (rule decObject_invariant)
     (auto simp: viewportMember_def viewportField_def Let_def store_def finiteViewport_def
         decLocation_finite)

lemma finiteGeometry_alt:
  "finiteGeometry g = (finiteLocation (Location g) \<and> finiteViewport (Viewport g))"
  by (simp add: finiteGeometry_def finiteViewport_def)

lemma decGeometry_finite:
  "finiteGeometry cur \<Longrightarrow> finiteGeometry (fst (decGeometry lib d cur))"
  unfolding decGeometry_def
  by (rule decObject_invariant)
     (auto simp: geometryMember_def geometryField_def Let_def store_def finiteGeometry_alt
         decLocation_finite decViewport_finite)

lemma decNearbyResult_finite:
  "finiteNearbyResult cur \<Longrightarrow> finiteNearbyResult (fst (decNearbyResult lib d cur))"
  unfolding decNearbyResult_def
  by (rule decObject_invariant)
     (auto simp: nearbyResultMember_def nearbyResultField_def Let_def store_def
         finiteNearbyResult_def decGeometry_finite decFloat_finite)

lemma finite_zeroNearbyResult: "finiteNearbyResult zeroNearbyResult"
  by (simp add: finiteNearbyResult_def finiteGeometry_def finiteLocation_def zeroNearbyResult_def
      zeroGeometry_def zeroViewport_def zeroLocation_def isFinite_zero)

lemma put_keys: "fst ` set (put key v ms) = insert key (fst ` set ms)"
proof (induction ms)
  case Nil
  show ?case by simp
next
  case (Cons m ms)
  obtain key' v' where m: "m = (key', v')" by (cases m)
  show ?case by (simp add: m Cons.IH insert_commute)
qed

lemma put_values: "p \<in> set (put key v ms) \<Longrightarrow> p = (key, v) \<or> p \<in> set ms"
  by (induction ms) (auto split: if_splits)

lemma put_sorted:
  "sorted_wrt (<) (map fst ms) \<Longrightarrow> sorted_wrt (<) (map fst (put key v ms))"
proof (induction ms)
  case Nil
  show ?case by simp
next
  case (Cons m ms)
  obtain key' v' where m: "m = (key', v')" by (cases m)
  from Cons show ?case
    using put_keys [of key v ms] by (auto simp: m)
qed

lemma foldl_put_invariant:
  assumes "sorted_wrt (<) (map fst acc)" and "\<forall>p \<in> set acc. P (snd p)"
    and "\<forall>p \<in> set ps. P (snd p)"
  shows "sorted_wrt (<) (map fst (foldl (\<lambda>m p. put (fst p) (snd p) m) acc ps))
     \<and> (\<forall>p \<in> set (foldl (\<lambda>m p. put (fst p) (snd p) m) acc ps). P (snd p))"
  using assms
proof (induction ps arbitrary: acc)
  case Nil
  then show ?case by simp
next
  case (Cons q ps)
  have "sorted_wrt (<) (map fst (put (fst q) (snd q) acc))"
    using Cons.prems(1) by (rule put_sorted)
  moreover have "\<forall>p \<in> set (put (fst q) (snd q) acc). P (snd p)"
    using put_values [of _ "fst q" "snd q" acc] Cons.prems(2,3) by auto
  ultimately show ?case
    using Cons.IH [of "put (fst q) (snd q) acc"] Cons.prems(3) by simp
qed

lemma dynValue_proper: "finiteDyn (dynValue d) \<and> keysInOrder (dynValue d)"
proof (induction d)
  case (DNumber f n)
  show ?case by (simp split: option.split)
next
  case (DObject ms)
  have each: "\<forall>p \<in> set (map (\<lambda>p. (fst p, dynValue (snd p))) ms).
      finiteDyn (snd p) \<and> keysInOrder (snd p)"
    using DObject by (auto simp: snds.simps)
  have "sorted_wrt (<) (map fst ([] :: (string \<times> JSONValue) list))"
    and "\<forall>p \<in> set ([] :: (string \<times> JSONValue) list). finiteDyn (snd p) \<and> keysInOrder (snd p)"
    by simp_all
  from foldl_put_invariant [OF this each]
  show ?case by auto
qed simp_all

lemma fieldOf_exact: "key \<in> set tags \<Longrightarrow> fieldOf lib tags key = Some key"
  by (simp add: fieldOf_def)

lemma decSlice_encSlice:
  assumes "\<And>x. x \<in> set (elements s) \<Longrightarrow> element (enc x) = (x, None)"
  shows "decSlice element (encSlice enc s) cur = (s, None)"
proof (cases s)
  case None
  then show ?thesis by (simp add: decSlice_def encSlice_def)
next
  case (Some xs)
  with assms have each: "\<And>x. x \<in> set xs \<Longrightarrow> element (enc x) = (x, None)"
    by (simp add: elements_def)
  then have "map (\<lambda>d. fst (element d)) (map enc xs) = xs"
    by (simp add: map_idI)
  moreover have "firstError (map (\<lambda>d. snd (element d)) (map enc xs)) = None"
    using each firstError_None [of xs "\<lambda>x. snd (element (enc x))"] by (simp add: comp_def)
  ultimately show ?thesis by (simp add: Some decSlice_def encSlice_def)
qed

lemma decString_DString: "decString (DString s) cur = (s, None)"
  by (simp add: decString_def)

lemma decInt_encInt: "decInt (encInt lib n) cur = (n, None)"
  by (simp add: decInt_def encInt_def)

lemma decFloat_encFloat: "isFinite f \<Longrightarrow> decFloat (encFloat lib f) cur = (f, None)"
  by (simp add: decFloat_def encFloat_def)

lemma decBool_DBool: "decBool (DBool b) cur = (b, None)"
  by (simp add: decBool_def)

lemmas leaf_round_trips = decString_DString decInt_encInt decFloat_encFloat decBool_DBool

lemma decLocation_encLocation:
  "finiteLocation l \<Longrightarrow> decLocation lib (encLocation lib l) cur = (l, None)"
  by (simp add: decLocation_def decObject_unfold encLocation_def locationMember_def
      locationField_def fieldOf_exact store_def leaf_round_trips finiteLocation_def keep_simps)

lemma decViewport_encViewport:
  "finiteViewport v \<Longrightarrow> decViewport lib (encViewport lib v) cur = (v, None)"
  by (simp add: decViewport_def decObject_unfold encViewport_def viewportMember_def
      viewportField_def fieldOf_exact store_def decLocation_encLocation finiteViewport_def
      keep_simps)

lemma decGeometry_encGeometry:
  "finiteGeometry g \<Longrightarrow> decGeometry lib (encGeometry lib g) zeroGeometry = (g, None)"
  by (simp add: decGeometry_def decObject_unfold encGeometry_def geometryMember_def
      geometryField_def fieldOf_exact store_def decLocation_encLocation decViewport_encViewport
      leaf_round_trips finiteGeometry_alt keep_simps omitEmpty_def zeroGeometry_def)

lemma decPlusCode_encPlusCode: "decPlusCode lib (encPlusCode c) cur = (c, None)"
  by (simp add: decPlusCode_def decObject_unfold encPlusCode_def plusCodeMember_def
      plusCodeField_def fieldOf_exact store_def leaf_round_trips keep_simps)

lemma decOpeningHour_encOpeningHour: "decOpeningHour lib (encOpeningHour h) cur = (h, None)"
  by (simp add: decOpeningHour_def decObject_unfold encOpeningHour_def openingHourMember_def
      openingHourField_def fieldOf_exact store_def leaf_round_trips keep_simps)

lemma decPhoto_encPhoto: "decPhoto lib (encPhoto lib p) cur = (p, None)"
  by (simp add: decPhoto_def decObject_unfold encPhoto_def photoMember_def photoField_def
      fieldOf_exact store_def leaf_round_trips decSlice_encSlice keep_simps)

lemma nearbyResultMember_tags:
  "nearbyResultMember lib ''geometry'' d s =
     store (decGeometry lib d (Geometry s)) (\<lambda>x. s\<lparr>Geometry := x\<rparr>)"
  "nearbyResultMember lib ''icon'' d s =
     store (decString d (Icon s)) (\<lambda>x. s\<lparr>Icon := x\<rparr>)"
  "nearbyResultMember lib ''id'' d s =
     store (decString d (ID s)) (\<lambda>x. s\<lparr>ID := x\<rparr>)"
  "nearbyResultMember lib ''name'' d s =
     store (decString d (Name s)) (\<lambda>x. s\<lparr>Name := x\<rparr>)"
  "nearbyResultMember lib ''opening_hours'' d s =
     store (decOpeningHour lib d (OpeningHours s)) (\<lambda>x. s\<lparr>OpeningHours := x\<rparr>)"
  "nearbyResultMember lib ''photos'' d s =
     store (decSlice (\<lambda>d. decPhoto lib d zeroPhoto) d (Photos s)) (\<lambda>x. s\<lparr>Photos := x\<rparr>)"
  "nearbyResultMember lib ''place_id'' d s =
     store (decString d (PlaceID s)) (\<lambda>x. s\<lparr>PlaceID := x\<rparr>)"
  "nearbyResultMember lib ''plus_code'' d s =
     store (decPlusCode lib d (PlusCode s)) (\<lambda>x. s\<lparr>PlusCode := x\<rparr>)"
  "nearbyResultMember lib ''price_level'' d s =
     store (decInt d (PriceLevel s)) (\<lambda>x. s\<lparr>PriceLevel := x\<rparr>)"
  "nearbyResultMember lib ''rating'' d s =
     store (decFloat d (Rating s)) (\<lambda>x. s\<lparr>Rating := x\<rparr>)"
  "nearbyResultMember lib ''reference'' d s =
     store (decString d (Reference s)) (\<lambda>x. s\<lparr>Reference := x\<rparr>)"
  "nearbyResultMember lib ''scope'' d s =
     store (decString d (Scope s)) (\<lambda>x. s\<lparr>Scope := x\<rparr>)"
  "nearbyResultMember lib ''types'' d s =
     store (decSlice (\<lambda>d. decString d '''') d (Types s)) (\<lambda>x. s\<lparr>Types := x\<rparr>)"
  "nearbyResultMember lib ''user_ratings_total'' d s =
     store (decInt d (UserRatingsTotal s)) (\<lambda>x. s\<lparr>UserRatingsTotal := x\<rparr>)"
  "nearbyResultMember lib ''vicinity'' d s =
     store (decString d (Vicinity s)) (\<lambda>x. s\<lparr>Vicinity := x\<rparr>)"
  by (simp_all add: nearbyResultMember_def nearbyResultField_def nearbyResultTags_def
      fieldOf_exact)

lemma decNearbyResult_encNearbyResult:
  "finiteNearbyResult r \<Longrightarrow>
   decNearbyResult lib (encNearbyResult lib r) zeroNearbyResult = (r, None)"
  by (simp add: decNearbyResult_def decObject_unfold encNearbyResult_def nearbyResultMember_tags
      store_def leaf_round_trips decSlice_encSlice decGeometry_encGeometry decPlusCode_encPlusCode
      decOpeningHour_encOpeningHour decPhoto_encPhoto finiteNearbyResult_def keep_simps
      omitEmpty_def zeroNearbyResult_def)

lemma put_last: "\<forall>k \<in> fst ` set acc. k < key \<Longrightarrow> put key v acc = acc @ [(key, v)]"
  by (induction acc) auto

lemma foldl_put_sorted:
  "sorted_wrt (<) (map fst (acc @ ms)) \<Longrightarrow>
   foldl (\<lambda>m p. put (fst p) (snd p) m) acc ms = acc @ ms"
proof (induction ms arbitrary: acc)
  case Nil
  show ?case by simp
next
  case (Cons q ms)
  from Cons.prems have "\<forall>k \<in> fst ` set acc. k < fst q"
    by (auto simp: sorted_wrt_append)
  then have "put (fst q) (snd q) acc = acc @ [q]"
    by (simp add: put_last)
  with Cons.IH [of "acc @ [q]"] Cons.prems show ?case by simp
qed

lemma dyn_round_trip:
  "finiteDyn v \<Longrightarrow> keysInOrder v \<Longrightarrow>
   dynValue (encDyn lib v) = v \<and> dynError (encDyn lib v) = None"
proof (induction v)
  case (JNumber f)
  then show ?case by (simp add: encFloat_def)
next
  case (JArray vs)
  then have each: "\<And>v. v \<in> set vs \<Longrightarrow> dynValue (encDyn lib v) = v \<and> dynError (encDyn lib v) = None"
    by simp
  then have "map dynValue (map (encDyn lib) vs) = vs"
    by (simp add: map_idI)
  moreover have "firstError (map dynError (map (encDyn lib) vs)) = None"
    using each firstError_None [of vs "\<lambda>v. dynError (encDyn lib v)"] by (simp add: comp_def)
  ultimately show ?case by simp
next
  case (JObject ms)
  let ?enc = "map (\<lambda>p. (fst p, encDyn lib (snd p))) ms"
  from JObject.prems have ordered: "sorted_wrt (<) (map fst ms)" by simp
  then have "sorted (map fst ms)"
    by (simp add: strict_sorted_iff)
  then have written: "sort_key fst ?enc = ?enc"
    by (intro sort_key_id_if_sorted) (simp add: comp_def)
  have each: "\<And>p. p \<in> set ms \<Longrightarrow>
      dynValue (encDyn lib (snd p)) = snd p \<and> dynError (encDyn lib (snd p)) = None"
    using JObject by (auto simp: snds.simps)
  then have read: "map (\<lambda>p. (fst p, dynValue (snd p))) ?enc = ms"
    by (simp add: comp_def map_idI)
  have "firstError (map (\<lambda>p. dynError (snd p)) ?enc) = None"
    using each firstError_None [of ms "\<lambda>p. dynError (encDyn lib (snd p))"] by (simp add: comp_def)
  moreover have "foldl (\<lambda>m p. put (fst p) (snd p) m) [] ms = ms"
    using foldl_put_sorted [of "[]" ms] ordered by simp
  ultimately show ?case
    by (simp only: encDyn.simps dynValue.simps dynError.simps written read)
qed simp_all

lemma proper_zero: "proper zeroNearbySearch"
  by (simp add: proper_def encodable_def elements_def zeroNearbySearch_def)

lemma decSlice_elements:
  assumes "\<And>d. P (fst (element d))" and "\<forall>x \<in> set (elements cur). P x"
  shows "\<forall>x \<in> set (elements (fst (decSlice element d cur))). P x"
  using assms by (cases d) (auto simp: decSlice_def elements_def)

lemma unmarshal_proper: "proper (fst (unmarshalNearbySearch lib d zeroNearbySearch))"
  unfolding unmarshalNearbySearch_def
proof (rule decObject_invariant [where P = proper])
  show "proper zeroNearbySearch" by (rule proper_zero)
next
  fix key v s
  assume s: "proper s"
  have dyn: "\<forall>x \<in> set (elements (fst (decSlice (\<lambda>d. (dynValue d, dynError d)) v (HTMLAttributions s)))).
      finiteDyn x \<and> keysInOrder x"
    using s by (intro decSlice_elements) (auto simp: dynValue_proper proper_def encodable_def)
  have res: "\<forall>x \<in> set (elements (fst (decSlice (\<lambda>d. decNearbyResult lib d zeroNearbyResult) v (Results s)))).
      finiteNearbyResult x"
    using s
    by (intro decSlice_elements)
       (auto simp: decNearbyResult_finite finite_zeroNearbyResult proper_def encodable_def)
  show "proper (fst (nearbySearchMember lib key v s))"
    using s dyn res
    by (auto simp: nearbySearchMember_def nearbySearchField_def Let_def store_def proper_def
        encodable_def)
qed

lemma proper_round_trip:
  assumes "proper x"
  shows "marshalNearbySearch lib x = Inr (encNearbySearch lib x)"
    and "unmarshalNearbySearch lib (encNearbySearch lib x) zeroNearbySearch = (x, None)"
proof -
  from assms show "marshalNearbySearch lib x = Inr (encNearbySearch lib x)"
    by (simp add: marshalNearbySearch_def proper_def)
  have dyn: "decSlice (\<lambda>d. (dynValue d, dynError d)) (encSlice (encDyn lib) (HTMLAttributions x)) cur
      = (HTMLAttributions x, None)" for cur
    using assms by (intro decSlice_encSlice) (simp add: proper_def encodable_def dyn_round_trip)
  have res: "decSlice (\<lambda>d. decNearbyResult lib d zeroNearbyResult)
      (encSlice (encNearbyResult lib) (Results x)) cur = (Results x, None)" for cur
    using assms
    by (intro decSlice_encSlice)
       (simp add: proper_def encodable_def decNearbyResult_encNearbyResult)
  show "unmarshalNearbySearch lib (encNearbySearch lib x) zeroNearbySearch = (x, None)"
    by (simp add: unmarshalNearbySearch_def decObject_unfold encNearbySearch_def
        nearbySearchMember_def nearbySearchField_def fieldOf_exact store_def dyn res
        leaf_round_trips keep_simps)
qed

text \<open>
  Claim C8. Every value of GoogleNearbySearchResponse that the decoder returns for a JSON
  payload, decoded into the zero value as PlaceNearby does, can be encoded, and decoding the
  encoding into the zero value returns that same value, with no error. This holds for the
  value returned with a decode error as well.
\<close>

theorem nearby_search_round_trip:
  "unmarshalNearbySearch lib payload zeroNearbySearch = (x, err) \<Longrightarrow>
   \<exists>doc. marshalNearbySearch lib x = Inr doc
     \<and> unmarshalNearbySearch lib doc zeroNearbySearch = (x, None)"
  using unmarshal_proper [of lib payload] proper_round_trip [of x lib] by auto

theorem nearby_search_round_trip_witness:
  "unmarshalNearbySearch sampleLib samplePayload zeroNearbySearch = (sampleDecoded, None)
   \<and> marshalNearbySearch sampleLib sampleDecoded = Inr sampleEncoded
   \<and> unmarshalNearbySearch sampleLib sampleEncoded zeroNearbySearch = (sampleDecoded, None)"
proof -
  have decoded:
    "unmarshalNearbySearch sampleLib samplePayload zeroNearbySearch = (sampleDecoded, None)"
    by code_simp
  have encoded: "marshalNearbySearch sampleLib sampleDecoded = Inr sampleEncoded"
    by code_simp
  from nearby_search_round_trip [OF decoded]
  obtain doc where "marshalNearbySearch sampleLib sampleDecoded = Inr doc"
    and again: "unmarshalNearbySearch sampleLib doc zeroNearbySearch = (sampleDecoded, None)"
    by blast
  with encoded have "doc = sampleEncoded" by simp
  with decoded encoded again show ?thesis by simp
qed

end
